theory Spec2Isabelle
  imports Main "HOL-Library.Multiset"
begin

section \<open>Python values and failures\<close>

text \<open>
  Filter values, column values and keys are dynamically typed in the source (\<open>Any\<close>).
  The embedding keeps the shapes the code inspects: \<open>None\<close>, booleans, integers,
  strings, sequences and string-keyed dictionaries.
\<close>

datatype pyval =
    PNone
  | PBool bool
  | PInt int
  | PStr string
  | PList "pyval list"
  | PDict "(string \<times> pyval) list"

text \<open>
  The typed errors of \<open>exc/exc.py\<close>: \<open>ArqueaError\<close> is the base class,
  \<open>ResourceError\<close> carries \<open>resource\<close> and \<open>params\<close>, and the two subclasses
  keep both fields.
\<close>

datatype arquea_error =
    ArqueaError
  | ResourceError string string
  | ResourceUniqueError string string
  | ResourceMissingError string string

text \<open>
  Everything a call can raise. \<open>Arquea\<close> wraps the typed errors. The other constructors
  are the built-in and library exceptions the modelled code meets; all of them derive from
  \<open>Exception\<close> except \<open>NonException\<close>, which stands for a \<open>BaseException\<close> outside
  \<open>Exception\<close> (\<open>KeyboardInterrupt\<close>, \<open>SystemExit\<close>).
\<close>

datatype py_exception =
    Arquea arquea_error
  | KeyError string
  | ValueError string
  | TypeError string
  | AttributeError string
  | ValidationError string
  | NotImplementedError string
  | MultipleResultsFound
  | NoResultFound
  | StorageError string
  | NonException string

section \<open>String helpers\<close>

text \<open>\<open>s.startswith(p)\<close>, \<open>p in s\<close> and \<open>s.replace(c, "")\<close> for a one-character \<open>c\<close>.\<close>

definition starts_with :: "string \<Rightarrow> string \<Rightarrow> bool" where
  "starts_with s p = (take (length p) s = p)"

fun contains :: "string \<Rightarrow> string \<Rightarrow> bool" where
  "contains p [] = (p = [])"
| "contains p (c # cs) = (starts_with (c # cs) p \<or> contains p cs)"

definition str_remove :: "char \<Rightarrow> string \<Rightarrow> string" where
  "str_remove c s = filter (\<lambda>x. x \<noteq> c) s"

text \<open>
  \<open>s.split(sep)\<close> for a non-empty separator: the string is scanned from the left, every
  occurrence of the separator cuts a piece, and the scan resumes behind the occurrence.
\<close>

function str_split :: "string \<Rightarrow> string \<Rightarrow> string list" where
  "str_split sep [] = [[]]"
| "str_split sep (c # cs) =
     (if sep \<noteq> [] \<and> starts_with (c # cs) sep
      then [] # str_split sep (drop (length sep) (c # cs))
      else (case str_split sep cs of
              p # ps \<Rightarrow> (c # p) # ps
            | [] \<Rightarrow> [[c]]))"
  by pat_completeness auto
termination
  by (relation "measure (\<lambda>(sep, s). length s)") (auto simp: neq_Nil_conv)

section \<open>Filter operators\<close>

text \<open>
  \<open>_backward_compatible_value_for_like_and_ilike\<close>: the membership test \<open>"%" not in value\<close>
  raises \<open>TypeError\<close> on a value that is not a container; the f-string renders the value with
  \<open>str()\<close>, which is the identity on strings and is the parameter \<open>fmt\<close> elsewhere.
\<close>

definition py_format :: "(pyval \<Rightarrow> string) \<Rightarrow> pyval \<Rightarrow> string" where
  "py_format fmt v = (case v of PStr s \<Rightarrow> s | _ \<Rightarrow> fmt v)"

definition percent_in :: "pyval \<Rightarrow> py_exception + bool" where
  "percent_in v =
     (case v of
        PStr s \<Rightarrow> Inr (CHR ''%'' \<in> set s)
      | PList xs \<Rightarrow> Inr (PStr ''%'' \<in> set xs)
      | PDict kvs \<Rightarrow> Inr (''%'' \<in> fst ` set kvs)
      | _ \<Rightarrow> Inl (TypeError ''argument is not iterable''))"

definition backward_compatible_value_for_like_and_ilike ::
  "(pyval \<Rightarrow> string) \<Rightarrow> pyval \<Rightarrow> py_exception + pyval" where
  "backward_compatible_value_for_like_and_ilike fmt v =
     (case percent_in v of
        Inl e \<Rightarrow> Inl e
      | Inr True \<Rightarrow> Inr v
      | Inr False \<Rightarrow> Inr (PStr (''%'' @ py_format fmt v @ ''%'')))"

text \<open>
  \<open>orm_operator_transformer\<close>: the table from operator suffix to the function that yields
  the comparison method and the transformed value. A suffix outside the table has no entry.
\<close>

definition like_transformer ::
  "string \<Rightarrow> (pyval \<Rightarrow> string) \<Rightarrow> pyval \<Rightarrow> py_exception + (string \<times> pyval)" where
  "like_transformer name fmt v =
     (case backward_compatible_value_for_like_and_ilike fmt v of
        Inl e \<Rightarrow> Inl e
      | Inr w \<Rightarrow> Inr (name, w))"

definition orm_operator_transformer ::
  "(pyval \<Rightarrow> string) \<Rightarrow> string \<Rightarrow> (pyval \<Rightarrow> py_exception + (string \<times> pyval)) option" where
  "orm_operator_transformer fmt op =
     (if op = ''neq'' then Some (\<lambda>v. Inr (''__ne__'', v))
      else if op = ''gt'' then Some (\<lambda>v. Inr (''__gt__'', v))
      else if op = ''gte'' then Some (\<lambda>v. Inr (''__ge__'', v))
      else if op = ''in'' then Some (\<lambda>v. Inr (''in_'', v))
      else if op = ''isnull'' then
        Some (\<lambda>v. if v = PBool True then Inr (''is_'', PNone) else Inr (''is_not'', PNone))
      else if op = ''isempty'' then
        Some (\<lambda>v. if v = PBool True then Inr (''__eq__'', PStr []) else Inr (''__ne__'', PStr []))
      else if op = ''lt'' then Some (\<lambda>v. Inr (''__lt__'', v))
      else if op = ''lte'' then Some (\<lambda>v. Inr (''__le__'', v))
      else if op = ''like'' then Some (like_transformer ''like'' fmt)
      else if op = ''ilike'' then Some (like_transformer ''ilike'' fmt)
      else if op = ''not'' then Some (\<lambda>v. Inr (''is_not'', v))
      else if op = ''not_in'' then Some (\<lambda>v. Inr (''not_in'', v))
      else None)"

definition registered_operators :: "string list" where
  "registered_operators =
     [''neq'', ''gt'', ''gte'', ''lt'', ''lte'', ''in'', ''not_in'', ''isnull'', ''isempty'',
      ''like'', ''ilike'', ''not'']"

text \<open>
  \<open>get_operator\<close>. The assignment \<open>filter_name, operator = filter_name.split("__")\<close> unpacks
  exactly two pieces and raises \<open>ValueError\<close> otherwise (\<open>unpack2\<close>); the table lookup
  raises \<open>KeyError\<close> on a suffix that is not registered.
\<close>

definition unpack2 :: "string list \<Rightarrow> py_exception + (string \<times> string)" where
  "unpack2 pieces =
     (case pieces of
        [a, b] \<Rightarrow> Inr (a, b)
      | [] \<Rightarrow> Inl (ValueError ''not enough values to unpack (expected 2, got 0)'')
      | [a] \<Rightarrow> Inl (ValueError ''not enough values to unpack (expected 2, got 1)'')
      | _ \<Rightarrow> Inl (ValueError ''too many values to unpack (expected 2)''))"

definition get_operator ::
  "(pyval \<Rightarrow> string) \<Rightarrow> string \<Rightarrow> pyval \<Rightarrow> py_exception + (string \<times> string \<times> pyval)" where
  "get_operator fmt filter_name filter_value =
     (if contains ''__'' filter_name then
        (case unpack2 (str_split ''__'' filter_name) of
           Inl e \<Rightarrow> Inl e
         | Inr (name, op) \<Rightarrow>
             (case orm_operator_transformer fmt op of
                None \<Rightarrow> Inl (KeyError op)
              | Some f \<Rightarrow>
                  (case f filter_value of
                     Inl e \<Rightarrow> Inl e
                   | Inr (operator, v) \<Rightarrow> Inr (operator, name, v))))
      else Inr (''__eq__'', filter_name, filter_value))"

text \<open>The part of a key behind its first occurrence of a separator, when there is one.\<close>

fun after_first :: "string \<Rightarrow> string \<Rightarrow> string option" where
  "after_first sep [] = None"
| "after_first sep (c # cs) =
     (if starts_with (c # cs) sep then Some (drop (length sep) (c # cs))
      else after_first sep cs)"

section \<open>Mapped classes and compiled clauses\<close>

text \<open>
  A mapped class as the filter engine sees it through \<open>getattr\<close>: its name, its column
  attributes, and its relationship attributes with their \<open>lazy\<close> setting and target class.
  A name in neither list is no attribute (\<open>AttributeError\<close>). The embedding records which
  attribute and which method the source calls; what the ORM builds for the call is opaque.
\<close>

datatype orm_model =
  OrmModel (model_name: string) (columns: "string list")
           (relationships: "(string \<times> string \<times> orm_model) list")

datatype orm_attr = Column | Relationship string orm_model

definition getattr_model :: "orm_model \<Rightarrow> string \<Rightarrow> orm_attr option" where
  "getattr_model m n =
     (case map_of (relationships m) n of
        Some (lazy, target) \<Rightarrow> Some (Relationship lazy target)
      | None \<Rightarrow> if n \<in> set (columns m) then Some Column else None)"

text \<open>
  \<open>BinaryExpression cls attr method value\<close> stands for \<open>getattr(cls.attr, method)(value)\<close>;
  \<open>UnaryExpression cls attr direction\<close> for \<open>getattr(cls.attr, direction)()\<close>.
\<close>

datatype criterion = BinaryExpression string string string pyval

datatype Direction = ASC | DESC

datatype unary_expression = UnaryExpression string string Direction

datatype load = joinedload string string | selectinload string string

definition orm_lazy_load :: "string \<Rightarrow> (string \<Rightarrow> string \<Rightarrow> load) option" where
  "orm_lazy_load lazy =
     (if lazy = ''joined'' then Some joinedload
      else if lazy = ''selectin'' then Some selectinload
      else None)"

text \<open>
  Modelled from the spec: \<open>conf/conf_types.py\<close>, which declares \<open>FilterOperator\<close>, is not
  among the sources. The code uses its members \<open>AND\<close> and \<open>OR\<close> only, and the spec names the
  combinator as AND/OR; enum members are truthy, so \<open>operator or d\<close> is \<open>d\<close> exactly when
  \<open>operator\<close> is \<open>None\<close>.
\<close>

datatype FilterOperator = AND | OR

definition operator_or :: "FilterOperator option \<Rightarrow> FilterOperator \<Rightarrow> FilterOperator" where
  "operator_or operator d = (case operator of None \<Rightarrow> d | Some op \<Rightarrow> op)"

datatype clause = and_clause "criterion list" | or_clause "criterion list"

type_synonym filters = "(string \<times> pyval) list"

definition get_column_criteria ::
  "(pyval \<Rightarrow> string) \<Rightarrow> orm_model \<Rightarrow> string \<Rightarrow> pyval \<Rightarrow> py_exception + criterion" where
  "get_column_criteria fmt model filter_name filter_value =
     (case get_operator fmt filter_name filter_value of
        Inl e \<Rightarrow> Inl e
      | Inr (operator, field_name, field_value) \<Rightarrow>
          (case getattr_model model field_name of
             None \<Rightarrow> Inl (AttributeError field_name)
           | Some _ \<Rightarrow> Inr (BinaryExpression (model_name model) field_name operator field_value)))"

definition get_lazy_load :: "orm_model \<Rightarrow> string \<Rightarrow> py_exception + (load \<times> orm_model)" where
  "get_lazy_load model column_name =
     (case getattr_model model column_name of
        Some (Relationship lazy target) \<Rightarrow>
          (case orm_lazy_load lazy of
             None \<Rightarrow> Inl (KeyError lazy)
           | Some mk \<Rightarrow> Inr (mk (model_name model) column_name, target))
      | _ \<Rightarrow> Inl (AttributeError (''Invalid filtering attribute: '' @ column_name)))"

definition get_join_column_criteria ::
  "(pyval \<Rightarrow> string) \<Rightarrow> orm_model \<Rightarrow> string \<Rightarrow> pyval \<Rightarrow> py_exception + (criterion \<times> load)" where
  "get_join_column_criteria fmt model filter_name filter_value =
     (case unpack2 (str_split ''___'' filter_name) of
        Inl e \<Rightarrow> Inl e
      | Inr (join_column, rest) \<Rightarrow>
          (case get_lazy_load model join_column of
             Inl e \<Rightarrow> Inl e
           | Inr (lazy_load, target) \<Rightarrow>
               (case get_column_criteria fmt target rest filter_value of
                  Inl e \<Rightarrow> Inl e
                | Inr criteria \<Rightarrow> Inr (criteria, lazy_load))))"

text \<open>\<open>get_criteria\<close>: the loop over the filter items; the first key that fails ends it.\<close>

fun get_criteria ::
  "(pyval \<Rightarrow> string) \<Rightarrow> orm_model \<Rightarrow> filters \<Rightarrow> py_exception + (criterion list \<times> load list)" where
  "get_criteria fmt model [] = Inr ([], [])"
| "get_criteria fmt model ((filter_name, filter_value) # rest) =
     (if contains ''___'' filter_name then
        (case get_join_column_criteria fmt model filter_name filter_value of
           Inl e \<Rightarrow> Inl e
         | Inr (column_criteria, column_load) \<Rightarrow>
             (case get_criteria fmt model rest of
                Inl e \<Rightarrow> Inl e
              | Inr (criteria, join_criteria) \<Rightarrow>
                  Inr (column_criteria # criteria, column_load # join_criteria)))
      else
        (case get_column_criteria fmt model filter_name filter_value of
           Inl e \<Rightarrow> Inl e
         | Inr column_criteria \<Rightarrow>
             (case get_criteria fmt model rest of
                Inl e \<Rightarrow> Inl e
              | Inr (criteria, join_criteria) \<Rightarrow> Inr (column_criteria # criteria, join_criteria))))"

definition get_filter_criteria ::
  "(pyval \<Rightarrow> string) \<Rightarrow> orm_model \<Rightarrow> filters \<Rightarrow> FilterOperator
     \<Rightarrow> py_exception + (clause \<times> load list)" where
  "get_filter_criteria fmt model fs operator =
     (case get_criteria fmt model fs of
        Inl e \<Rightarrow> Inl e
      | Inr (criteria, join_criteria) \<Rightarrow>
          Inr (if operator = OR then or_clause criteria else and_clause criteria, join_criteria))"

text \<open>
  \<open>get_sort_criteria\<close>: the direction is read off the first character and every \<open>-\<close> and
  \<open>+\<close> is removed from the token. A token whose cleaned name is no attribute is skipped (the
  \<open>except AttributeError: pass\<close>). On a column, \<open>asc()\<close> or \<open>desc()\<close> gives the sort clause.
  On a relationship attribute the ORM has no such operator and raises
  \<open>NotImplementedError\<close>, which the \<open>except\<close> clause does not catch: the loop ends there.
\<close>

fun get_sort_criteria :: "orm_model \<Rightarrow> string list \<Rightarrow> py_exception + unary_expression list" where
  "get_sort_criteria model [] = Inr []"
| "get_sort_criteria model (sort_name # rest) =
     (let direction = (if starts_with sort_name ''-'' then DESC else ASC);
          field_name = str_remove CHR ''+'' (str_remove CHR ''-'' sort_name)
      in case getattr_model model field_name of
           None \<Rightarrow> get_sort_criteria model rest
         | Some Column \<Rightarrow>
             (case get_sort_criteria model rest of
                Inl e \<Rightarrow> Inl e
              | Inr sorting \<Rightarrow>
                  Inr (UnaryExpression (model_name model) field_name direction # sorting))
         | Some (Relationship lazy target) \<Rightarrow>
             Inl (NotImplementedError (if direction = DESC then ''desc_op'' else ''asc_op'')))"

section \<open>The store and the queries sent to it\<close>

text \<open>
  A row (an entity) maps column names to values. The session of a repository holds the rows
  of the repository's table. What the engine makes of an atomic comparison and of an
  \<open>ORDER BY\<close> list is not decided by the repository: both are parameters, together with
  Python's \<open>str()\<close> on values and on exceptions.
\<close>

type_synonym entity = "string \<rightharpoonup> pyval"

record runtime =
  py_str :: "pyval \<Rightarrow> string"
  exc_str :: "py_exception \<Rightarrow> string"
  sql_holds :: "entity \<Rightarrow> criterion \<Rightarrow> bool"
  sql_order :: "unary_expression list \<Rightarrow> entity list \<Rightarrow> entity list"

text \<open>
  The \<open>Select\<close> statement the repository assembles: the load options, the \<open>filter\<close>
  clauses in the order they were added, and the optional \<open>OFFSET\<close>, \<open>LIMIT\<close> and
  \<open>ORDER BY\<close> parts.
\<close>

record select =
  options :: "load set"
  where_criteria :: "clause list"
  offset_clause :: "int option"
  limit_clause :: "int option"
  order_by :: "unary_expression list"

text \<open>
  An empty \<open>and_()\<close> or \<open>or_()\<close> renders as a blank string and contributes no
  \<open>WHERE\<close> condition, so a clause without criteria admits every row.
\<close>

definition eval_clause :: "(entity \<Rightarrow> criterion \<Rightarrow> bool) \<Rightarrow> entity \<Rightarrow> clause \<Rightarrow> bool" where
  "eval_clause h r cl =
     (case cl of
        and_clause cs \<Rightarrow> list_all (h r) cs
      | or_clause cs \<Rightarrow> cs = [] \<or> list_ex (h r) cs)"

definition matching :: "runtime \<Rightarrow> entity list \<Rightarrow> select \<Rightarrow> entity list" where
  "matching rt rows q = filter (\<lambda>r. list_all (eval_clause (sql_holds rt) r) (where_criteria q)) rows"

definition apply_offset :: "int option \<Rightarrow> 'a list \<Rightarrow> 'a list" where
  "apply_offset off rs = (case off of None \<Rightarrow> rs | Some n \<Rightarrow> drop (nat n) rs)"

definition apply_limit :: "int option \<Rightarrow> 'a list \<Rightarrow> 'a list" where
  "apply_limit lim rs = (case lim of None \<Rightarrow> rs | Some n \<Rightarrow> take (nat n) rs)"

text \<open>
  Running a statement: filter, order, skip the offset, cut at the limit. A statement without
  \<open>ORDER BY\<close> leaves the rows in the order of the table.
\<close>

definition ordered :: "runtime \<Rightarrow> unary_expression list \<Rightarrow> entity list \<Rightarrow> entity list" where
  "ordered rt clauses rs = (if clauses = [] then rs else sql_order rt clauses rs)"

definition execute :: "runtime \<Rightarrow> entity list \<Rightarrow> select \<Rightarrow> entity list" where
  "execute rt rows q =
     apply_limit (limit_clause q)
       (apply_offset (offset_clause q) (ordered rt (order_by q) (matching rt rows q)))"

text \<open>
  \<open>session.scalar(q)\<close> is the first row or \<open>None\<close>; \<open>session.scalars(q).one()\<close> wants
  exactly one row; \<open>select(func.count()).select_from(q.subquery())\<close> counts the rows of \<open>q\<close>.
\<close>

definition scalar :: "runtime \<Rightarrow> entity list \<Rightarrow> select \<Rightarrow> entity option" where
  "scalar rt rows q = (case execute rt rows q of [] \<Rightarrow> None | r # _ \<Rightarrow> Some r)"

definition scalars_one :: "runtime \<Rightarrow> entity list \<Rightarrow> select \<Rightarrow> py_exception + entity" where
  "scalars_one rt rows q =
     (case execute rt rows q of
        [] \<Rightarrow> Inl NoResultFound
      | [r] \<Rightarrow> Inr r
      | _ \<Rightarrow> Inl MultipleResultsFound)"

definition count_subquery :: "runtime \<Rightarrow> entity list \<Rightarrow> select \<Rightarrow> int" where
  "count_subquery rt rows q = int (length (execute rt rows q))"

section \<open>The repository\<close>

record repository =
  resource :: string
  model :: orm_model
  session :: "entity list"

definition filters_or_empty :: "filters option \<Rightarrow> filters" where
  "filters_or_empty fs = (case fs of None \<Rightarrow> [] | Some kvs \<Rightarrow> kvs)"

text \<open>\<open>_get_filter_query\<close>: both groups are compiled with \<open>operator or FilterOperator.OR\<close>.\<close>

definition get_filter_query ::
  "runtime \<Rightarrow> repository \<Rightarrow> filters option \<Rightarrow> filters option \<Rightarrow> FilterOperator option
     \<Rightarrow> py_exception + select" where
  "get_filter_query rt repo mandatory fs operator =
     (case get_filter_criteria (py_str rt) (model repo) (filters_or_empty mandatory)
             (operator_or operator OR) of
        Inl e \<Rightarrow> Inl e
      | Inr (mandatory_clause, mandatory_join_criteria) \<Rightarrow>
          (case get_filter_criteria (py_str rt) (model repo) (filters_or_empty fs)
                  (operator_or operator OR) of
             Inl e \<Rightarrow> Inl e
           | Inr (filter_clause, join_criteria) \<Rightarrow>
               Inr \<lparr> options = set (mandatory_join_criteria @ join_criteria),
                     where_criteria = [filter_clause, mandatory_clause],
                     offset_clause = None, limit_clause = None, order_by = [] \<rparr>))"

text \<open>
  \<open>_apply_paginated_query\<close>. \<open>None if offset and offset < 0 else offset\<close> keeps \<open>0\<close> and
  \<open>None\<close>; the following \<open>if _offset:\<close> is false for both, so an offset is set exactly when
  it is positive, a limit exactly when it is at least 1, an ordering when it is not empty.
  \<open>paginate_with\<close> is the function with the sort clauses already compiled; the compilation
  of \<open>sort_by or []\<close> may raise.
\<close>

definition sort_by_or_empty :: "string list option \<Rightarrow> string list" where
  "sort_by_or_empty sort_by = (case sort_by of None \<Rightarrow> [] | Some ts \<Rightarrow> ts)"

definition paginate_with ::
  "select \<Rightarrow> int option \<Rightarrow> int option \<Rightarrow> unary_expression list \<Rightarrow> select" where
  "paginate_with query offset limit sort1 =
     (let offset1 = (case offset of
                       None \<Rightarrow> None
                     | Some n \<Rightarrow> if n \<noteq> 0 \<and> n < 0 then None else Some n);
          limit1 = (case limit of
                      None \<Rightarrow> None
                    | Some n \<Rightarrow> if n \<noteq> 0 \<and> n < 1 then None else Some n);
          q1 = (case offset1 of
                  Some n \<Rightarrow> if n \<noteq> 0 then query\<lparr>offset_clause := Some n\<rparr> else query
                | None \<Rightarrow> query);
          q2 = (case limit1 of
                  Some n \<Rightarrow> if n \<noteq> 0 then q1\<lparr>limit_clause := Some n\<rparr> else q1
                | None \<Rightarrow> q1)
      in if sort1 \<noteq> [] then q2\<lparr>order_by := sort1\<rparr> else q2)"

definition apply_paginated_query ::
  "repository \<Rightarrow> select \<Rightarrow> int option \<Rightarrow> int option \<Rightarrow> string list option
     \<Rightarrow> py_exception + select" where
  "apply_paginated_query repo query offset limit sort_by =
     (case get_sort_criteria (model repo) (sort_by_or_empty sort_by) of
        Inl e \<Rightarrow> Inl e
      | Inr sort1 \<Rightarrow> Inr (paginate_with query offset limit sort1))"

definition get_query ::
  "runtime \<Rightarrow> repository \<Rightarrow> filters option \<Rightarrow> filters option \<Rightarrow> FilterOperator option
     \<Rightarrow> int option \<Rightarrow> int option \<Rightarrow> string list option \<Rightarrow> py_exception + select" where
  "get_query rt repo mandatory fs operator offset limit sort_by =
     (case get_filter_query rt repo mandatory fs operator of
        Inl e \<Rightarrow> Inl e
      | Inr query \<Rightarrow> apply_paginated_query repo query offset limit sort_by)"

text \<open>
  The query methods. Their keyword arguments \<open>**kwargs\<close> are the filter map \<open>kwargs\<close>;
  a caller that leaves out \<open>offset\<close> and \<open>limit\<close> passes the defaults \<open>0\<close> and \<open>15\<close>.
\<close>

definition get_all ::
  "runtime \<Rightarrow> repository \<Rightarrow> int \<Rightarrow> int \<Rightarrow> string list option \<Rightarrow> FilterOperator option
     \<Rightarrow> filters option \<Rightarrow> filters \<Rightarrow> py_exception + entity list" where
  "get_all rt repo offset limit sort_by operator mandatory kwargs =
     (case get_query rt repo mandatory (Some kwargs) operator (Some offset) (Some limit) sort_by of
        Inl e \<Rightarrow> Inl e
      | Inr query \<Rightarrow> Inr (execute rt (session repo) query))"

definition count_by ::
  "runtime \<Rightarrow> repository \<Rightarrow> FilterOperator option \<Rightarrow> filters option \<Rightarrow> filters
     \<Rightarrow> py_exception + int" where
  "count_by rt repo operator mandatory kwargs =
     (case get_filter_query rt repo mandatory (Some kwargs) operator of
        Inl e \<Rightarrow> Inl e
      | Inr query \<Rightarrow> Inr (count_subquery rt (session repo) query))"

definition get_and_count ::
  "runtime \<Rightarrow> repository \<Rightarrow> int \<Rightarrow> int \<Rightarrow> string list option \<Rightarrow> FilterOperator option
     \<Rightarrow> filters option \<Rightarrow> filters \<Rightarrow> py_exception + (entity list \<times> int)" where
  "get_and_count rt repo offset limit sort_by operator mandatory kwargs =
     (case get_filter_query rt repo mandatory (Some kwargs) operator of
        Inl e \<Rightarrow> Inl e
      | Inr query \<Rightarrow>
          (case apply_paginated_query repo query (Some offset) (Some limit) sort_by of
             Inl e \<Rightarrow> Inl e
           | Inr query_paginated \<Rightarrow>
               (let entities = execute rt (session repo) query_paginated;
                    total_count = count_subquery rt (session repo) query
                in Inr (entities, total_count))))"

text \<open>\<open>session.get(model, key)\<close>: the row whose primary key \<open>id\<close> is the key.\<close>

definition get_by_key :: "repository \<Rightarrow> pyval \<Rightarrow> entity option" where
  "get_by_key repo key = find (\<lambda>r. r ''id'' = Some key) (session repo)"

text \<open>
  \<open>get_by_key_or_fail\<close>. Its last line is \<open>raise (self.resource, f"...")\<close>: the operand of
  \<open>raise\<close> is a tuple, not an exception, so Python raises \<open>TypeError\<close> there.
\<close>

definition get_by_key_or_fail :: "repository \<Rightarrow> pyval \<Rightarrow> py_exception + entity" where
  "get_by_key_or_fail repo key =
     (case get_by_key repo key of
        Some entity \<Rightarrow> Inr entity
      | None \<Rightarrow> Inl (TypeError ''exceptions must derive from BaseException''))"

definition get_one_by ::
  "runtime \<Rightarrow> repository \<Rightarrow> int \<Rightarrow> int \<Rightarrow> string list option \<Rightarrow> FilterOperator option
     \<Rightarrow> filters option \<Rightarrow> filters \<Rightarrow> py_exception + entity option" where
  "get_one_by rt repo offset limit sort_by operator mandatory kwargs =
     (case get_query rt repo mandatory (Some kwargs) (Some (operator_or operator AND))
             (Some offset) (Some limit) sort_by of
        Inl e \<Rightarrow> Inl e
      | Inr query \<Rightarrow> Inr (scalar rt (session repo) query))"

definition get_one_by_or_fail ::
  "runtime \<Rightarrow> repository \<Rightarrow> int \<Rightarrow> int \<Rightarrow> string list option \<Rightarrow> FilterOperator option
     \<Rightarrow> filters option \<Rightarrow> filters \<Rightarrow> py_exception + entity" where
  "get_one_by_or_fail rt repo offset limit sort_by operator mandatory kwargs =
     (case get_query rt repo mandatory (Some kwargs) (Some (operator_or operator AND))
             (Some offset) (Some limit) sort_by of
        Inl e \<Rightarrow> Inl e
      | Inr query \<Rightarrow>
          (case scalars_one rt (session repo) query of
             Inr entity \<Rightarrow> Inr entity
           | Inl MultipleResultsFound \<Rightarrow>
               Inl (Arquea (ResourceUniqueError (resource repo)
                      (''Multiple entities found: '' @ py_format (py_str rt) (PDict kwargs))))
           | Inl NoResultFound \<Rightarrow>
               Inl (Arquea (ResourceMissingError (resource repo)
                      (''Resource not found: '' @ py_format (py_str rt) (PDict kwargs))))
           | Inl e \<Rightarrow> Inl e))"

text \<open>
  \<open>update_by_key\<close>: the \<open>UPDATE\<close> writes \<open>{**data, "updated_at": utc_now()}\<close> into every
  row whose \<open>id\<close> is the key, then the row is read back. The clock reading is the
  argument \<open>now\<close>; the changed session is returned with the outcome.
\<close>

definition update_by_key ::
  "pyval \<Rightarrow> repository \<Rightarrow> pyval \<Rightarrow> entity \<Rightarrow> (py_exception + entity) \<times> repository" where
  "update_by_key now repo key data =
     (let kwargs = data(''updated_at'' \<mapsto> now);
          repo1 = repo\<lparr>session := map (\<lambda>r. if r ''id'' = Some key then r ++ kwargs else r)
                                      (session repo)\<rparr>
      in (get_by_key_or_fail repo1 key, repo1))"

text \<open>
  \<open>delete_by\<close>: the criteria are compiled with AND and the matching rows are deleted.
\<close>

definition delete_by ::
  "runtime \<Rightarrow> repository \<Rightarrow> filters \<Rightarrow> (py_exception + unit) \<times> repository" where
  "delete_by rt repo kwargs =
     (case get_filter_criteria (py_str rt) (model repo) kwargs AND of
        Inl e \<Rightarrow> (Inl e, repo)
      | Inr (criteria, join_criteria) \<Rightarrow>
          (Inr (),
           repo\<lparr>session := filter (\<lambda>r. \<not> eval_clause (sql_holds rt) r criteria)
                                   (session repo)\<rparr>))"

section \<open>The error boundary\<close>

text \<open>
  The receiver of a decorated method, as the boundary and the facade use it: its repository,
  the validation of a row into a DTO (\<open>self._dto.model_validate\<close>, which may raise), and
  the text of \<open>str(type(self).__mro__)\<close>. The property \<open>resource\<close> of a facade is its
  repository's.
\<close>

record 'd facade =
  repository :: repository
  dto :: "entity \<Rightarrow> py_exception + 'd"
  mro :: string

definition retrieve_resource :: "string \<Rightarrow> 'd facade list \<Rightarrow> string" where
  "retrieve_resource res args =
     (case args of
        [] \<Rightarrow> res
      | a # _ \<Rightarrow> if contains ''SqlAlchemyCrudFacade'' (mro a) then resource (repository a) else res)"

text \<open>
  \<open>db_catch_exception(resource)(run_func)\<close> applied to the positional arguments \<open>args\<close>;
  \<open>outcome\<close> is what \<open>run_func(*args, **kwargs)\<close> returned or raised. \<open>except Exception\<close>
  does not catch a \<open>BaseException\<close> outside \<open>Exception\<close>.
\<close>

definition db_catch_exception ::
  "runtime \<Rightarrow> string \<Rightarrow> 'd facade list \<Rightarrow> py_exception + 'a \<Rightarrow> py_exception + 'a" where
  "db_catch_exception rt res args outcome =
     (case outcome of
        Inr v \<Rightarrow> Inr v
      | Inl (Arquea error) \<Rightarrow> Inl (Arquea error)
      | Inl (NonException n) \<Rightarrow> Inl (NonException n)
      | Inl error \<Rightarrow> Inl (Arquea (ResourceError (retrieve_resource res args) (exc_str rt error))))"

section \<open>The facade\<close>

text \<open>
  \<open>PaginationFilter\<close> and the class attributes of \<open>SqlAlchemyCrudFacade\<close>. Every public
  method is decorated with \<open>db_catch_exception(resource=_resource)\<close>, where \<open>_resource\<close> is
  the class attribute at decoration time.
\<close>

record pagination_filter =
  pf_offset :: int
  pf_limit :: int

definition facade_resource :: string where
  "facade_resource = ''SqlAlchemyCrudFacade''"

definition default_pagination :: pagination_filter where
  "default_pagination = \<lparr> pf_offset = 0, pf_limit = 1000000 \<rparr>"

definition default_sort_by :: "string list" where
  "default_sort_by = [''+code'', ''+slug'', ''-created_at'', ''-updated_at'']"

definition sort_latest :: "string list" where
  "sort_latest = [''-created_at'', ''-updated_at'']"

definition mapping_from_entity_to_dto :: "'d facade \<Rightarrow> entity \<Rightarrow> py_exception + 'd" where
  "mapping_from_entity_to_dto fac entity = dto fac entity"

text \<open>
  \<open>_mapping_from_entity_to_dto_or_none\<close> catches \<open>ValidationError\<close> only, logs a warning and
  returns \<open>None\<close>. The log is the list of warnings, each the row and the error.
\<close>

type_synonym warnings = "(entity \<times> py_exception) list"

definition mapping_from_entity_to_dto_or_none ::
  "'d facade \<Rightarrow> entity \<Rightarrow> (py_exception + 'd option) \<times> warnings" where
  "mapping_from_entity_to_dto_or_none fac entity =
     (case mapping_from_entity_to_dto fac entity of
        Inr d \<Rightarrow> (Inr (Some d), [])
      | Inl (ValidationError msg) \<Rightarrow> (Inr None, [(entity, ValidationError msg)])
      | Inl e \<Rightarrow> (Inl e, []))"

text \<open>
  The comprehension \<open>[dto for dto in (... for entity in entities) if dto]\<close> of \<open>get_list\<close>.
  A DTO is a pydantic model, which is truthy, so \<open>if dto\<close> drops the \<open>None\<close>s only.
\<close>

fun dtos_or_none :: "'d facade \<Rightarrow> entity list \<Rightarrow> (py_exception + 'd list) \<times> warnings" where
  "dtos_or_none fac [] = (Inr [], [])"
| "dtos_or_none fac (entity # rest) =
     (case mapping_from_entity_to_dto_or_none fac entity of
        (Inl e, w) \<Rightarrow> (Inl e, w)
      | (Inr d, w) \<Rightarrow>
          (case dtos_or_none fac rest of
             (Inl e, w1) \<Rightarrow> (Inl e, w @ w1)
           | (Inr ds, w1) \<Rightarrow> (Inr (case d of None \<Rightarrow> ds | Some x \<Rightarrow> x # ds), w @ w1)))"

definition facade_get :: "runtime \<Rightarrow> 'd facade \<Rightarrow> pyval \<Rightarrow> py_exception + 'd" where
  "facade_get rt fac key =
     db_catch_exception rt facade_resource [fac]
       (case get_by_key_or_fail (repository fac) key of
          Inl e \<Rightarrow> Inl e
        | Inr entity \<Rightarrow> mapping_from_entity_to_dto fac entity)"

definition facade_get_one_by ::
  "runtime \<Rightarrow> 'd facade \<Rightarrow> int \<Rightarrow> int \<Rightarrow> string list option \<Rightarrow> FilterOperator option
     \<Rightarrow> filters option \<Rightarrow> filters \<Rightarrow> py_exception + 'd" where
  "facade_get_one_by rt fac offset limit sort_by operator mandatory kwargs =
     db_catch_exception rt facade_resource [fac]
       (case get_one_by_or_fail rt (repository fac) offset limit sort_by operator mandatory kwargs of
          Inl e \<Rightarrow> Inl e
        | Inr entity \<Rightarrow> mapping_from_entity_to_dto fac entity)"

definition facade_get_latest_by ::
  "runtime \<Rightarrow> 'd facade \<Rightarrow> int \<Rightarrow> FilterOperator option \<Rightarrow> filters option \<Rightarrow> filters
     \<Rightarrow> py_exception + 'd" where
  "facade_get_latest_by rt fac offset operator mandatory kwargs =
     db_catch_exception rt facade_resource [fac]
       (case get_one_by_or_fail rt (repository fac) offset 1 (Some sort_latest) operator
               mandatory kwargs of
          Inl e \<Rightarrow> Inl e
        | Inr entity \<Rightarrow> mapping_from_entity_to_dto fac entity)"

text \<open>
  \<open>pagination or self._default_pagination\<close> (a pydantic model is truthy) and
  \<open>self._default_sort_by if not sort_by or not sort_by.sort else sort_by\<close>.
\<close>

definition pagination_or_default :: "pagination_filter option \<Rightarrow> pagination_filter" where
  "pagination_or_default pagination =
     (case pagination of None \<Rightarrow> default_pagination | Some p \<Rightarrow> p)"

definition sort_by_or_default :: "string list option \<Rightarrow> string list" where
  "sort_by_or_default sort_by =
     (case sort_by of
        None \<Rightarrow> default_sort_by
      | Some ts \<Rightarrow> if ts = [] then default_sort_by else ts)"

definition facade_get_list ::
  "runtime \<Rightarrow> 'd facade \<Rightarrow> pagination_filter option \<Rightarrow> string list option
     \<Rightarrow> FilterOperator option \<Rightarrow> filters option \<Rightarrow> filters
     \<Rightarrow> (py_exception + ('d list \<times> int)) \<times> warnings" where
  "facade_get_list rt fac pagination sort_by operator mandatory kwargs =
     (let pagination1 = pagination_or_default pagination;
          sort1 = sort_by_or_default sort_by
      in case get_and_count rt (repository fac) (pf_offset pagination1) (pf_limit pagination1)
                (Some sort1) operator mandatory kwargs of
           Inl e \<Rightarrow> (db_catch_exception rt facade_resource [fac] (Inl e), [])
         | Inr (entities, total_count) \<Rightarrow>
             (case dtos_or_none fac entities of
                (Inl e, w) \<Rightarrow> (db_catch_exception rt facade_resource [fac] (Inl e), w)
              | (Inr data, w) \<Rightarrow>
                  (db_catch_exception rt facade_resource [fac] (Inr (data, total_count)), w)))"

text \<open>
  An update DTO: the value of every declared field and the set of fields the caller set
  (\<open>model_fields_set\<close>). \<open>model_dump(exclude_unset=True)\<close> keeps the set fields only.
\<close>

record dto_update =
  field_values :: "string \<rightharpoonup> pyval"
  fields_set :: "string set"

definition mapping_from_dto_update_to_dict :: "dto_update \<Rightarrow> entity" where
  "mapping_from_dto_update_to_dict data = field_values data |` fields_set data"

definition facade_update ::
  "runtime \<Rightarrow> pyval \<Rightarrow> 'd facade \<Rightarrow> pyval \<Rightarrow> dto_update \<Rightarrow> (py_exception + 'd) \<times> 'd facade" where
  "facade_update rt now fac key data =
     (let entity_key = key;
          entity_data = mapping_from_dto_update_to_dict data;
          (entity_updated, repo1) = update_by_key now (repository fac) entity_key entity_data;
          fac1 = fac\<lparr>repository := repo1\<rparr>
      in (db_catch_exception rt facade_resource [fac1]
            (case entity_updated of
               Inl e \<Rightarrow> Inl e
             | Inr entity \<Rightarrow> mapping_from_entity_to_dto fac1 entity),
          fac1))"

text \<open>
  \<open>delete_list\<close> is defined in the abstract \<open>CrudFacade\<close> only, without the decorator, and
  \<open>SqlAlchemyCrudFacade\<close> does not override it. It hands its \<open>**kwargs\<close> to \<open>self.get_list\<close>
  (the decorated method, which binds a keyword \<open>mandatory\<close> to its own parameter) and then,
  whole, to \<open>delete_by\<close>, where every keyword is a filter key.
\<close>

definition delete_list_kwargs :: "filters option \<Rightarrow> filters \<Rightarrow> filters" where
  "delete_list_kwargs mandatory kwargs =
     (case mandatory of None \<Rightarrow> kwargs | Some m \<Rightarrow> (''mandatory'', PDict m) # kwargs)"

definition facade_delete_list ::
  "runtime \<Rightarrow> 'd facade \<Rightarrow> FilterOperator option \<Rightarrow> filters option \<Rightarrow> filters
     \<Rightarrow> (py_exception + 'd list) \<times> 'd facade \<times> warnings" where
  "facade_delete_list rt fac operator mandatory kwargs =
     (case facade_get_list rt fac None None operator mandatory kwargs of
        (Inl e, w) \<Rightarrow> (Inl e, fac, w)
      | (Inr (dtos, total_count), w) \<Rightarrow>
          (case delete_by rt (repository fac) (delete_list_kwargs mandatory kwargs) of
             (Inl e, repo1) \<Rightarrow> (Inl e, fac\<lparr>repository := repo1\<rparr>, w)
           | (Inr u, repo1) \<Rightarrow> (Inr dtos, fac\<lparr>repository := repo1\<rparr>, w)))"

section \<open>The words of the specification\<close>



section \<open>A concrete table for evaluation\<close>

text \<open>
  The mapped class \<open>DBUser\<close> of \<open>models/user/db_model.py\<close> with the three columns of
  \<open>Base\<close>, a small engine that decides equality and inequality on a column and orders by
  the integer value of the first \<open>ORDER BY\<close> column, and three rows.
\<close>

definition DBUser :: orm_model where
  "DBUser = OrmModel ''user''
     [''created_at'', ''updated_at'', ''id'', ''first_name'', ''last_name'', ''telegram_id'',
      ''role'', ''viewed_at''] []"

definition holds_eq :: "entity \<Rightarrow> criterion \<Rightarrow> bool" where
  "holds_eq r c =
     (case c of BinaryExpression cls attr method v \<Rightarrow>
        if method = ''__eq__'' then r attr = Some v
        else if method = ''__ne__'' then r attr \<noteq> Some v
        else False)"

definition int_key :: "string \<Rightarrow> entity \<Rightarrow> int" where
  "int_key attr r = (case r attr of Some (PInt n) \<Rightarrow> n | _ \<Rightarrow> 0)"

definition order_first :: "unary_expression list \<Rightarrow> entity list \<Rightarrow> entity list" where
  "order_first clauses rs =
     (case clauses of
        [] \<Rightarrow> rs
      | UnaryExpression cls attr ASC # _ \<Rightarrow> sort_key (int_key attr) rs
      | UnaryExpression cls attr DESC # _ \<Rightarrow> rev (sort_key (int_key attr) rs))"

definition engine :: runtime where
  "engine = \<lparr> py_str = (\<lambda>v. ''<value>''), exc_str = (\<lambda>e. ''<error>''),
              sql_holds = holds_eq, sql_order = order_first \<rparr>"

definition ann :: entity where
  "ann = [''id'' \<mapsto> PInt 1, ''first_name'' \<mapsto> PStr ''Ann'', ''role'' \<mapsto> PStr ''employee'',
          ''created_at'' \<mapsto> PInt 30, ''updated_at'' \<mapsto> PInt 30]"

definition bob :: entity where
  "bob = [''id'' \<mapsto> PInt 2, ''first_name'' \<mapsto> PStr ''Bob'', ''role'' \<mapsto> PStr ''employee'',
          ''created_at'' \<mapsto> PInt 20, ''updated_at'' \<mapsto> PInt 20]"

definition eve :: entity where
  "eve = [''id'' \<mapsto> PInt 3, ''first_name'' \<mapsto> PStr ''Eve'', ''role'' \<mapsto> PNone,
          ''created_at'' \<mapsto> PInt 10, ''updated_at'' \<mapsto> PInt 10]"

definition users :: repository where
  "users = \<lparr> resource = ''user'', model = DBUser, session = [ann, bob, eve] \<rparr>"

text \<open>A DTO that requires a textual \<open>role\<close>; the row \<open>eve\<close> fails its validation.\<close>

definition validate_user :: "entity \<Rightarrow> py_exception + (string \<times> string)" where
  "validate_user r =
     (case (r ''first_name'', r ''role'') of
        (Some (PStr n), Some (PStr ro)) \<Rightarrow> Inr (n, ro)
      | _ \<Rightarrow> Inl (ValidationError ''role: Input should be a valid string''))"

definition user_facade :: "(string \<times> string) facade" where
  "user_facade = \<lparr> repository = users, dto = validate_user,
       mro = ''(<class UserCrudFacade>, <class SqlAlchemyCrudFacade>, <class CrudFacade>)'' \<rparr>"

definition employees :: filters where
  "employees = [(''role'', PStr ''employee'')]"

definition employees_query :: select where
  "employees_query = \<lparr> options = {},
     where_criteria = [or_clause [BinaryExpression ''user'' ''role'' ''__eq__'' (PStr ''employee'')],
                       or_clause []],
     offset_clause = None, limit_clause = None, order_by = [] \<rparr>"

definition and_query :: "criterion list \<Rightarrow> select" where
  "and_query cs = \<lparr> options = {}, where_criteria = [and_clause cs, and_clause []],
                    offset_clause = None, limit_clause = None, order_by = [] \<rparr>"

definition first_name_is :: "string \<Rightarrow> filters" where
  "first_name_is n = [(''first_name'', PStr n)]"

text \<open>
  The statement \<open>_get_filter_query\<close> builds from the compiled criteria of the filter group
  and of the mandatory group, for a given way of combining a group.
\<close>

definition filter_query_of ::
  "(criterion list \<Rightarrow> clause) \<Rightarrow> criterion list \<Rightarrow> criterion list \<Rightarrow> load list \<Rightarrow> select" where
  "filter_query_of combine cs ms loads =
     \<lparr> options = set loads, where_criteria = [combine cs, combine ms],
       offset_clause = None, limit_clause = None, order_by = [] \<rparr>"

definition ann_or_admin :: filters where
  "ann_or_admin = [(''first_name'', PStr ''Ann''), (''role'', PStr ''admin'')]"

definition ann_or_admin_criteria :: "criterion list" where
  "ann_or_admin_criteria =
     [BinaryExpression ''user'' ''first_name'' ''__eq__'' (PStr ''Ann''),
      BinaryExpression ''user'' ''role'' ''__eq__'' (PStr ''admin'')]"

text \<open>
  The page \<open>get_list\<close> fetches for a compiled statement and compiled sort clauses, the
  DTOs of its valid rows and the warnings for its invalid rows.
\<close>

definition fetched_page ::
  "runtime \<Rightarrow> 'd facade \<Rightarrow> pagination_filter option \<Rightarrow> unary_expression list \<Rightarrow> select
     \<Rightarrow> entity list" where
  "fetched_page rt fac pagination sorting q =
     execute rt (session (repository fac))
       (paginate_with q
          (Some (pf_offset (pagination_or_default pagination)))
          (Some (pf_limit (pagination_or_default pagination)))
          sorting)"

definition valid_dtos :: "'d facade \<Rightarrow> entity list \<Rightarrow> 'd list" where
  "valid_dtos fac es = concat (map (\<lambda>e. case dto fac e of Inr d \<Rightarrow> [d] | Inl x \<Rightarrow> []) es)"

definition validation_warnings :: "'d facade \<Rightarrow> entity list \<Rightarrow> warnings" where
  "validation_warnings fac es =
     concat (map (\<lambda>e. case dto fac e of Inr d \<Rightarrow> [] | Inl x \<Rightarrow> [(e, x)]) es)"

definition fails_validation :: "'d facade \<Rightarrow> entity \<Rightarrow> bool" where
  "fails_validation fac e =
     (case dto fac e of Inl (ValidationError msg) \<Rightarrow> True | _ \<Rightarrow> False)"





text \<open>The sort clauses the default sort tokens compile to on \<open>DBUser\<close>.\<close>

definition newest :: "unary_expression list" where
  "newest = [UnaryExpression ''user'' ''created_at'' DESC, UnaryExpression ''user'' ''updated_at'' DESC]"

definition rename_bob :: dto_update where
  "rename_bob = \<lparr> field_values = [''first_name'' \<mapsto> PStr ''Rob'', ''last_name'' \<mapsto> PNone,
                                    ''role'' \<mapsto> PNone, ''viewed_at'' \<mapsto> PNone],
                   fields_set = {''first_name''} \<rparr>"

section \<open>Splitting filter keys\<close>

lemma str_split_not_Nil: "str_split sep s \<noteq> []"
  by (induction sep s rule: str_split.induct) (auto split: list.splits)

lemma str_split_no_sep: "sep \<noteq> [] \<Longrightarrow> \<not> contains sep s \<Longrightarrow> str_split sep s = [s]"
  by (induction sep s rule: str_split.induct) (auto split: list.splits)

lemma after_first_contains: "sep \<noteq> [] \<Longrightarrow> (after_first sep s \<noteq> None) = contains sep s"
  by (induction s) (auto simp: starts_with_def)

lemma str_split_after_first:
  "sep \<noteq> [] \<Longrightarrow> after_first sep s = Some r \<Longrightarrow> \<exists>pre. str_split sep s = pre # str_split sep r"
proof (induction s)
  case Nil
  then show ?case by simp
next
  case (Cons c cs)
  show ?case
  proof (cases "starts_with (c # cs) sep")
    case True
    with Cons.prems show ?thesis by simp
  next
    case False
    with Cons.prems have "after_first sep cs = Some r" by simp
    with Cons.IH Cons.prems obtain pre where "str_split sep cs = pre # str_split sep r" by blast
    with False show ?thesis by simp
  qed
qed

lemma str_split_with_sep:
  assumes "sep \<noteq> []" and "contains sep s"
  shows "\<exists>a b bs. str_split sep s = a # b # bs"
proof -
  from assms obtain r where r: "after_first sep s = Some r"
    using after_first_contains [of sep s] by auto
  from str_split_after_first [OF assms(1) r]
  obtain pre where p: "str_split sep s = pre # str_split sep r" by blast
  obtain b bs where "str_split sep r = b # bs"
    using str_split_not_Nil [of sep r] by (cases "str_split sep r") auto
  with p show ?thesis by simp
qed

lemma transformer_None:
  "(orm_operator_transformer fmt op = None) = (op \<notin> set registered_operators)"
  by (simp add: orm_operator_transformer_def registered_operators_def)

text \<open>
  Claim C6. A key without \<open>__\<close> compiles to equality on the unchanged key and value. A key
  whose part behind the first \<open>__\<close> is not a registered operator fails to compile: the
  lookup in the operator table raises \<open>KeyError\<close> on that suffix, and when the suffix itself
  holds another \<open>__\<close> the unpacking of the split raises \<open>ValueError\<close> before the lookup.
  These two exceptions are what the code has for the invalid-operator condition.
\<close>

theorem get_operator_plain_or_unknown:
  "(\<not> contains ''__'' k \<longrightarrow> get_operator fmt k v = Inr (''__eq__'', k, v))
   \<and> (\<forall>s. after_first ''__'' k = Some s \<and> s \<notin> set registered_operators \<longrightarrow>
          get_operator fmt k v =
            (if contains ''__'' s then Inl (ValueError ''too many values to unpack (expected 2)'')
             else Inl (KeyError s)))"
proof (intro conjI allI impI)
  assume "\<not> contains ''__'' k"
  then show "get_operator fmt k v = Inr (''__eq__'', k, v)"
    by (simp add: get_operator_def)
next
  fix s
  assume a: "after_first ''__'' k = Some s \<and> s \<notin> set registered_operators"
  have ne: "''__'' \<noteq> []" by simp
  from a have c: "contains ''__'' k"
    using after_first_contains [OF ne, of k] by auto
  from a str_split_after_first [OF ne, of k s]
  obtain pre where p: "str_split ''__'' k = pre # str_split ''__'' s" by blast
  show "get_operator fmt k v =
            (if contains ''__'' s then Inl (ValueError ''too many values to unpack (expected 2)'')
             else Inl (KeyError s))"
  proof (cases "contains ''__'' s")
    case True
    from str_split_with_sep [OF ne True]
    obtain x y ys where "str_split ''__'' s = x # y # ys" by blast
    with p c True show ?thesis
      by (simp add: get_operator_def unpack2_def)
  next
    case False
    from str_split_no_sep [OF ne False] have "str_split ''__'' s = [s]" .
    moreover from a have "orm_operator_transformer fmt s = None"
      by (simp add: transformer_None)
    ultimately show ?thesis using p c False
      by (simp add: get_operator_def unpack2_def)
  qed
qed

theorem get_operator_plain_or_unknown_witness:
  "get_operator (py_str engine) ''first_name'' (PStr ''Ann'')
     = Inr (''__eq__'', ''first_name'', PStr ''Ann'')
   \<and> get_operator (py_str engine) ''age__between'' (PInt 3) = Inl (KeyError ''between'')
   \<and> get_operator (py_str engine) ''age__gt__x'' (PInt 3)
     = Inl (ValueError ''too many values to unpack (expected 2)'')"
proof -
  have 1: "\<not> contains ''__'' ''first_name''" by code_simp
  have 2: "after_first ''__'' ''age__between'' = Some ''between''" by code_simp
  have 3: "''between'' \<notin> set registered_operators" by code_simp
  have 4: "\<not> contains ''__'' ''between''" by code_simp
  have 5: "after_first ''__'' ''age__gt__x'' = Some ''gt__x''" by code_simp
  have 6: "''gt__x'' \<notin> set registered_operators" by code_simp
  have 7: "contains ''__'' ''gt__x''" by code_simp
  show ?thesis
    using get_operator_plain_or_unknown [of "''first_name''" "py_str engine" "PStr ''Ann''"]
          get_operator_plain_or_unknown [of "''age__between''" "py_str engine" "PInt 3"]
          get_operator_plain_or_unknown [of "''age__gt__x''" "py_str engine" "PInt 3"]
          1 2 3 4 5 6 7
    by simp
qed

section \<open>Pagination of a compiled query\<close>

lemma get_filter_query_shape:
  "get_filter_query rt repo mandatory fs operator = Inr q \<Longrightarrow>
     offset_clause q = None \<and> limit_clause q = None \<and> order_by q = []"
  by (auto simp: get_filter_query_def split: sum.splits prod.splits)

lemma apply_paginated_query_compiled:
  "get_sort_criteria (model repo) (sort_by_or_empty sb) = Inr sorting \<Longrightarrow>
     apply_paginated_query repo q off lim sb = Inr (paginate_with q off lim sorting)"
  by (simp add: apply_paginated_query_def)

lemma apply_paginated_query_failed:
  "get_sort_criteria (model repo) (sort_by_or_empty sb) = Inl e \<Longrightarrow>
     apply_paginated_query repo q off lim sb = Inl e"
  by (simp add: apply_paginated_query_def)

lemma matching_paginated:
  "matching rt rows (paginate_with q off lim sorting) = matching rt rows q"
  by (simp add: matching_def paginate_with_def Let_def split: option.splits)

lemma paginated_offset:
  "offset_clause q = None \<Longrightarrow>
     offset_clause (paginate_with q (Some off) lim sorting) =
       (if 0 < off then Some off else None)"
  by (simp add: paginate_with_def Let_def split: option.splits)

lemma paginated_limit:
  "limit_clause q = None \<Longrightarrow>
     limit_clause (paginate_with q off (Some lim) sorting) =
       (if 1 \<le> lim then Some lim else None)"
  by (simp add: paginate_with_def Let_def split: option.splits)

lemma paginated_order:
  "order_by q = [] \<Longrightarrow> order_by (paginate_with q off lim sorting) = sorting"
  by (simp add: paginate_with_def Let_def split: option.splits)

lemma execute_paginated:
  assumes "get_filter_query rt repo mandatory fs operator = Inr q"
  shows "execute rt rows (paginate_with q (Some off) (Some lim) sorting) =
           apply_limit (if 1 \<le> lim then Some lim else None)
             (apply_offset (if 0 < off then Some off else None)
                (ordered rt sorting (matching rt rows q)))"
proof -
  from get_filter_query_shape [OF assms]
  have s: "offset_clause q = None" "limit_clause q = None" "order_by q = []" by simp_all
  show ?thesis
    unfolding execute_def matching_paginated
    by (simp only: paginated_offset [OF s(1)] paginated_limit [OF s(2)] paginated_order [OF s(3)])
qed

lemma execute_unpaginated:
  assumes "get_filter_query rt repo mandatory fs operator = Inr q"
  shows "execute rt rows q = matching rt rows q"
  using get_filter_query_shape [OF assms]
  by (simp add: execute_def ordered_def apply_limit_def apply_offset_def)

lemma mset_ordered:
  "(\<forall>cls rs. mset (sql_order rt cls rs) = mset rs) \<Longrightarrow> mset (ordered rt cls rs) = mset rs"
  by (simp add: ordered_def)

lemma length_ordered:
  "(\<forall>cls rs. mset (sql_order rt cls rs) = mset rs) \<Longrightarrow> length (ordered rt cls rs) = length rs"
  by (metis mset_ordered size_mset)

lemma order_first_mset: "mset (order_first cls rs) = mset rs"
  by (simp add: order_first_def split: list.splits unary_expression.splits Direction.splits)

lemma engine_order: "\<forall>cls rs. mset (sql_order engine cls rs) = mset rs"
  by (simp add: engine_def order_first_mset)

lemma ordered_Nil: "ordered rt [] rs = rs"
  by (simp add: ordered_def)

lemma no_sort_compiled: "get_sort_criteria m (sort_by_or_empty None) = Inr []"
  by (simp add: sort_by_or_empty_def)

text \<open>
  A failure of the sort compilation ends every query method that paginates, after the
  filters have compiled.
\<close>

lemma sort_failure_propagates:
  assumes sc: "get_sort_criteria (model repo) (sort_by_or_empty sort_by) = Inl e"
  shows "get_filter_query rt repo mandatory (Some kwargs) operator = Inr q \<longrightarrow>
           get_all rt repo offset limit sort_by operator mandatory kwargs = Inl e
         \<and> get_and_count rt repo offset limit sort_by operator mandatory kwargs = Inl e"
    and "get_filter_query rt repo mandatory (Some kwargs) (Some (operator_or operator AND)) = Inr q \<longrightarrow>
           get_one_by rt repo offset limit sort_by operator mandatory kwargs = Inl e
         \<and> get_one_by_or_fail rt repo offset limit sort_by operator mandatory kwargs = Inl e"
  by (simp_all add: get_all_def get_and_count_def get_one_by_def get_one_by_or_fail_def
        get_query_def apply_paginated_query_failed [OF sc])

lemma employees_compiled:
  "get_filter_query engine users None (Some employees) None = Inr employees_query"
  by code_simp

lemma employees_matching: "matching engine (session users) employees_query = [ann, bob]"
  by (simp add: matching_def users_def engine_def employees_query_def eval_clause_def holds_eq_def
        ann_def bob_def eve_def)

text \<open>
  Claim C2. Whenever the filters and the sort tokens compile, \<open>get_and_count\<close> returns the
  rows of the paginated statement together with the number of rows matching the filters, a
  number that does not depend on offset, limit or sort. The offset is part of the statement
  exactly when it is strictly positive. Called with \<open>limit = 0\<close> the statement has no limit
  clause, so every matching row from the offset on is returned, and with no offset in force
  the rows returned are all the matching rows (as a multiset, the engine's ordering being a
  rearrangement).
\<close>

theorem get_and_count_total_and_unbounded:
  assumes fq: "get_filter_query rt repo mandatory (Some kwargs) operator = Inr q"
      and sc: "get_sort_criteria (model repo) (sort_by_or_empty sort_by) = Inr sorting"
  shows "get_and_count rt repo offset limit sort_by operator mandatory kwargs =
           Inr (execute rt (session repo) (paginate_with q (Some offset) (Some limit) sorting),
                int (length (matching rt (session repo) q)))
       \<and> offset_clause (paginate_with q (Some offset) (Some limit) sorting) =
           (if 0 < offset then Some offset else None)
       \<and> (limit = 0 \<longrightarrow>
            limit_clause (paginate_with q (Some offset) (Some limit) sorting) = None
          \<and> execute rt (session repo) (paginate_with q (Some offset) (Some limit) sorting) =
              apply_offset (if 0 < offset then Some offset else None)
                (ordered rt sorting (matching rt (session repo) q)))
       \<and> (limit = 0 \<and> offset \<le> 0 \<and> (\<forall>cls rs. mset (sql_order rt cls rs) = mset rs) \<longrightarrow>
            mset (execute rt (session repo) (paginate_with q (Some offset) (Some limit) sorting)) =
              mset (matching rt (session repo) q))"
proof -
  from get_filter_query_shape [OF fq]
  have s: "offset_clause q = None" "limit_clause q = None" "order_by q = []" by simp_all
  have a: "get_and_count rt repo offset limit sort_by operator mandatory kwargs =
           Inr (execute rt (session repo) (paginate_with q (Some offset) (Some limit) sorting),
                int (length (matching rt (session repo) q)))"
    by (simp add: get_and_count_def fq apply_paginated_query_compiled [OF sc] count_subquery_def
          execute_unpaginated [OF fq])
  have b: "offset_clause (paginate_with q (Some offset) (Some limit) sorting) =
           (if 0 < offset then Some offset else None)"
    by (rule paginated_offset [OF s(1)])
  have c: "limit = 0 \<longrightarrow>
            limit_clause (paginate_with q (Some offset) (Some limit) sorting) = None
          \<and> execute rt (session repo) (paginate_with q (Some offset) (Some limit) sorting) =
              apply_offset (if 0 < offset then Some offset else None)
                (ordered rt sorting (matching rt (session repo) q))"
    by (simp add: paginated_limit [OF s(2)] execute_paginated [OF fq] apply_limit_def)
  have d: "limit = 0 \<and> offset \<le> 0 \<and> (\<forall>cls rs. mset (sql_order rt cls rs) = mset rs) \<longrightarrow>
            mset (execute rt (session repo) (paginate_with q (Some offset) (Some limit) sorting)) =
              mset (matching rt (session repo) q)"
    by (simp add: execute_paginated [OF fq] apply_limit_def apply_offset_def mset_ordered)
  from a b c d show ?thesis by blast
qed

theorem get_and_count_total_and_unbounded_witness:
  "get_filter_query engine users None (Some employees) None = Inr employees_query
   \<and> get_sort_criteria (model users) (sort_by_or_empty None) = Inr []
   \<and> (\<forall>cls rs. mset (sql_order engine cls rs) = mset rs)
   \<and> get_and_count engine users 0 0 None None None employees = Inr ([ann, bob], 2)
   \<and> mset [ann, bob] = mset (matching engine (session users) employees_query)"
  using get_and_count_total_and_unbounded [OF employees_compiled no_sort_compiled, of 0 0]
        engine_order employees_compiled
  by (simp add: employees_matching apply_offset_def ordered_def no_sort_compiled)

section \<open>Fetching one row\<close>

lemma apply_limit_Nil: "apply_limit l [] = []"
  by (simp add: apply_limit_def split: option.splits)

lemma get_one_by_or_fail_page:
  assumes fq: "get_filter_query rt repo mandatory (Some kwargs) (Some (operator_or operator AND)) = Inr q"
      and sc: "get_sort_criteria (model repo) (sort_by_or_empty sort_by) = Inr sorting"
  shows "get_one_by_or_fail rt repo offset limit sort_by operator mandatory kwargs =
     (case execute rt (session repo) (paginate_with q (Some offset) (Some limit) sorting) of
        [] \<Rightarrow> Inl (Arquea (ResourceMissingError (resource repo)
                      (''Resource not found: '' @ py_format (py_str rt) (PDict kwargs))))
      | [r] \<Rightarrow> Inr r
      | _ \<Rightarrow> Inl (Arquea (ResourceUniqueError (resource repo)
                      (''Multiple entities found: '' @ py_format (py_str rt) (PDict kwargs)))))"
  by (simp add: get_one_by_or_fail_def get_query_def fq apply_paginated_query_compiled [OF sc]
        scalars_one_def split: list.splits)

lemma employees_compiled_and:
  "get_filter_query engine users None (Some employees) (Some (operator_or None AND)) =
     Inr (and_query [BinaryExpression ''user'' ''role'' ''__eq__'' (PStr ''employee'')])"
  by code_simp

lemma ann_compiled_and:
  "get_filter_query engine users None (Some (first_name_is ''Ann'')) (Some (operator_or None AND)) =
     Inr (and_query [BinaryExpression ''user'' ''first_name'' ''__eq__'' (PStr ''Ann'')])"
  by code_simp

lemma zed_compiled_and:
  "get_filter_query engine users None (Some (first_name_is ''Zed'')) (Some (operator_or None AND)) =
     Inr (and_query [BinaryExpression ''user'' ''first_name'' ''__eq__'' (PStr ''Zed'')])"
  by code_simp

lemma employees_matching_and:
  "matching engine (session users)
     (and_query [BinaryExpression ''user'' ''role'' ''__eq__'' (PStr ''employee'')]) = [ann, bob]"
  by (simp add: matching_def users_def engine_def and_query_def eval_clause_def holds_eq_def
        ann_def bob_def eve_def)

lemma ann_matching_and:
  "matching engine (session users)
     (and_query [BinaryExpression ''user'' ''first_name'' ''__eq__'' (PStr ''Ann'')]) = [ann]"
  by (simp add: matching_def users_def engine_def and_query_def eval_clause_def holds_eq_def
        ann_def bob_def eve_def)

lemma zed_matching_and:
  "matching engine (session users)
     (and_query [BinaryExpression ''user'' ''first_name'' ''__eq__'' (PStr ''Zed'')]) = []"
  by (simp add: matching_def users_def engine_def and_query_def eval_clause_def holds_eq_def
        ann_def bob_def eve_def)

text \<open>
  Claim C1, amended. Once the filters and the sort tokens compile, the outcome of
  \<open>get_one_by_or_fail\<close> is read off the paginated result, so the claim needs the
  pagination out of the way: with no offset in force (\<open>offset \<le> 0\<close>) and a limit other
  than 1 (the default is 15; 0 and negative values set no limit), zero matching rows give
  \<open>ResourceMissingError\<close>, exactly one matching row is returned, and two or more give
  \<open>ResourceUniqueError\<close>. The engine's \<open>ORDER BY\<close> is taken to rearrange the rows it is
  given.
\<close>

theorem get_one_by_or_fail_unpaginated:
  assumes fq: "get_filter_query rt repo mandatory (Some kwargs) (Some (operator_or operator AND)) = Inr q"
      and sc: "get_sort_criteria (model repo) (sort_by_or_empty sort_by) = Inr sorting"
      and perm: "\<forall>cls rs. mset (sql_order rt cls rs) = mset rs"
      and off: "offset \<le> 0" and lim: "limit \<noteq> 1"
  shows "(matching rt (session repo) q = [] \<longrightarrow>
            get_one_by_or_fail rt repo offset limit sort_by operator mandatory kwargs =
              Inl (Arquea (ResourceMissingError (resource repo)
                     (''Resource not found: '' @ py_format (py_str rt) (PDict kwargs)))))
       \<and> (\<forall>r. matching rt (session repo) q = [r] \<longrightarrow>
            get_one_by_or_fail rt repo offset limit sort_by operator mandatory kwargs = Inr r)
       \<and> (2 \<le> length (matching rt (session repo) q) \<longrightarrow>
            get_one_by_or_fail rt repo offset limit sort_by operator mandatory kwargs =
              Inl (Arquea (ResourceUniqueError (resource repo)
                     (''Multiple entities found: '' @ py_format (py_str rt) (PDict kwargs)))))"
proof -
  define ms where "ms = matching rt (session repo) q"
  define os where "os = ordered rt sorting ms"
  define page where "page = execute rt (session repo) (paginate_with q (Some offset) (Some limit) sorting)"
  have mo: "mset os = mset ms" unfolding os_def by (rule mset_ordered [OF perm])
  have lo: "length os = length ms" using mo by (metis size_mset)
  have pg: "page = apply_limit (if 1 \<le> limit then Some limit else None) os"
    unfolding page_def os_def ms_def using off
    by (simp add: execute_paginated [OF fq] apply_offset_def)
  have r: "get_one_by_or_fail rt repo offset limit sort_by operator mandatory kwargs =
     (case page of
        [] \<Rightarrow> Inl (Arquea (ResourceMissingError (resource repo)
                      (''Resource not found: '' @ py_format (py_str rt) (PDict kwargs))))
      | [r] \<Rightarrow> Inr r
      | _ \<Rightarrow> Inl (Arquea (ResourceUniqueError (resource repo)
                      (''Multiple entities found: '' @ py_format (py_str rt) (PDict kwargs)))))"
    unfolding page_def by (rule get_one_by_or_fail_page [OF fq sc])
  have a: "ms = [] \<longrightarrow> page = []"
    using lo pg by (auto simp: apply_limit_Nil)
  have b: "\<forall>x. ms = [x] \<longrightarrow> page = [x]"
  proof (intro allI impI)
    fix x assume "ms = [x]"
    with mo have "mset os = {#x#}" by simp
    then have "os = [x]" by simp
    with pg lim show "page = [x]" by (auto simp: apply_limit_def)
  qed
  have c: "2 \<le> length ms \<longrightarrow> (\<exists>x y zs. page = x # y # zs)"
  proof
    assume "2 \<le> length ms"
    with lo have l2: "2 \<le> length os" by simp
    have "2 \<le> length page"
      using pg lim l2 by (auto simp: apply_limit_def)
    then show "\<exists>x y zs. page = x # y # zs"
      by (cases page; cases "tl page") auto
  qed
  from a b c r show ?thesis unfolding ms_def [symmetric]
    by auto
qed

theorem get_one_by_or_fail_unpaginated_witness:
  "get_one_by_or_fail engine users 0 15 None None None (first_name_is ''Zed'') =
     Inl (Arquea (ResourceMissingError ''user'' (''Resource not found: '' @ ''<value>'')))
   \<and> get_one_by_or_fail engine users 0 15 None None None (first_name_is ''Ann'') = Inr ann
   \<and> get_one_by_or_fail engine users 0 15 None None None employees =
     Inl (Arquea (ResourceUniqueError ''user'' (''Multiple entities found: '' @ ''<value>'')))"
proof -
  have l: "(15::int) \<noteq> 1" "(0::int) \<le> 0" by simp_all
  have res: "resource users = ''user''" by (simp add: users_def)
  have f: "py_format (py_str engine) (PDict kw) = ''<value>''" for kw
    by (simp add: py_format_def engine_def)
  show ?thesis
    using get_one_by_or_fail_unpaginated [OF zed_compiled_and no_sort_compiled engine_order l(2) l(1)]
          get_one_by_or_fail_unpaginated [OF ann_compiled_and no_sort_compiled engine_order l(2) l(1)]
          get_one_by_or_fail_unpaginated [OF employees_compiled_and no_sort_compiled engine_order l(2) l(1)]
    by (simp add: zed_matching_and ann_matching_and employees_matching_and res f)
qed

text \<open>
  Claim C1 as stated fails: two rows match the filter, yet with \<open>limit = 1\<close> (what
  \<open>get_latest_by\<close> passes) the first row is returned, and with \<open>offset = 1\<close> the second.
\<close>

theorem get_one_by_or_fail_limit_one_counterexample:
  "matching engine (session users)
     (and_query [BinaryExpression ''user'' ''role'' ''__eq__'' (PStr ''employee'')]) = [ann, bob]
   \<and> get_one_by_or_fail engine users 0 1 None None None employees = Inr ann
   \<and> get_one_by_or_fail engine users 1 15 None None None employees = Inr bob"
  by (simp add: get_one_by_or_fail_page [OF employees_compiled_and no_sort_compiled]
        execute_paginated [OF employees_compiled_and] employees_matching_and
        ordered_Nil apply_limit_def apply_offset_def)

lemma apply_limit_empty_iff:
  "apply_limit (if 1 \<le> lim then Some lim else None) rs = [] \<longleftrightarrow> rs = []"
  by (auto simp: apply_limit_def)

text \<open>
  Claim C10, amended. When the filters and the sort tokens compile, \<open>get_one_by\<close> returns
  the first row of the ordered, paginated result and \<open>None\<close> when that result is empty; it
  never reports an ambiguity. With no offset in force it returns \<open>None\<close> exactly when no
  row matches; a positive offset that skips every matching row also gives \<open>None\<close>.
\<close>

theorem get_one_by_first_of_page:
  assumes fq: "get_filter_query rt repo mandatory (Some kwargs) (Some (operator_or operator AND)) = Inr q"
      and sc: "get_sort_criteria (model repo) (sort_by_or_empty sort_by) = Inr sorting"
  shows "get_one_by rt repo offset limit sort_by operator mandatory kwargs =
           Inr (case execute rt (session repo)
                       (paginate_with q (Some offset) (Some limit) sorting) of
                  [] \<Rightarrow> None
                | r # _ \<Rightarrow> Some r)
       \<and> (offset \<le> 0 \<and> (\<forall>cls rs. mset (sql_order rt cls rs) = mset rs) \<longrightarrow>
            (get_one_by rt repo offset limit sort_by operator mandatory kwargs = Inr None)
              = (matching rt (session repo) q = []))"
proof -
  have a: "get_one_by rt repo offset limit sort_by operator mandatory kwargs =
           Inr (case execute rt (session repo)
                       (paginate_with q (Some offset) (Some limit) sorting) of
                  [] \<Rightarrow> None
                | r # _ \<Rightarrow> Some r)"
    by (simp add: get_one_by_def get_query_def fq apply_paginated_query_compiled [OF sc] scalar_def)
  have b: "offset \<le> 0 \<and> (\<forall>cls rs. mset (sql_order rt cls rs) = mset rs) \<longrightarrow>
            (get_one_by rt repo offset limit sort_by operator mandatory kwargs = Inr None)
              = (matching rt (session repo) q = [])"
  proof
    assume h: "offset \<le> 0 \<and> (\<forall>cls rs. mset (sql_order rt cls rs) = mset rs)"
    define os where "os = ordered rt sorting (matching rt (session repo) q)"
    have lo: "length os = length (matching rt (session repo) q)"
      unfolding os_def using h by (simp add: length_ordered)
    have pg: "execute rt (session repo) (paginate_with q (Some offset) (Some limit) sorting)
                = apply_limit (if 1 \<le> limit then Some limit else None) os"
      unfolding os_def using h by (simp add: execute_paginated [OF fq] apply_offset_def)
    have "(get_one_by rt repo offset limit sort_by operator mandatory kwargs = Inr None)
            = (apply_limit (if 1 \<le> limit then Some limit else None) os = [])"
      unfolding a pg by (simp split: list.splits)
    also have "\<dots> = (os = [])" by (rule apply_limit_empty_iff)
    also have "\<dots> = (matching rt (session repo) q = [])" using lo by auto
    finally show "(get_one_by rt repo offset limit sort_by operator mandatory kwargs = Inr None)
              = (matching rt (session repo) q = [])" .
  qed
  from a b show ?thesis by blast
qed

theorem get_one_by_first_of_page_witness:
  "get_one_by engine users 0 15 None None None employees = Inr (Some ann)
   \<and> get_one_by engine users 0 15 None None None (first_name_is ''Zed'') = Inr None"
  using get_one_by_first_of_page [OF employees_compiled_and no_sort_compiled, of 0 15]
        get_one_by_first_of_page [OF zed_compiled_and no_sort_compiled, of 0 15] engine_order
  by (simp add: execute_paginated [OF employees_compiled_and]
        execute_paginated [OF zed_compiled_and] employees_matching_and
        zed_matching_and ordered_Nil apply_limit_def apply_offset_def)

text \<open>
  Claim C10 as stated fails: two rows match, and with \<open>offset = 2\<close> the result is \<open>None\<close>.
\<close>

theorem get_one_by_offset_counterexample:
  "matching engine (session users)
     (and_query [BinaryExpression ''user'' ''role'' ''__eq__'' (PStr ''employee'')]) = [ann, bob]
   \<and> get_one_by engine users 2 15 None None None employees = Inr None"
  by (simp add: get_one_by_def get_query_def employees_compiled_and scalar_def
        apply_paginated_query_compiled [OF no_sort_compiled] execute_paginated [OF employees_compiled_and] employees_matching_and
        ordered_Nil apply_limit_def apply_offset_def)

section \<open>Fetching by key\<close>

lemma get_by_key_or_fail_found:
  "get_by_key repo key = Some entity \<Longrightarrow> get_by_key_or_fail repo key = Inr entity"
  by (simp add: get_by_key_or_fail_def)

lemma get_by_key_or_fail_never_missing:
  "get_by_key_or_fail repo key \<noteq> Inl (Arquea (ResourceMissingError r p))"
  by (simp add: get_by_key_or_fail_def split: option.splits)

text \<open>
  Claim C3. A key with a row returns that row. For a key without a row the code does not
  raise \<open>ResourceMissingError\<close>: the operand of its \<open>raise\<close> is a tuple, so the call ends
  in \<open>TypeError\<close>, which the facade's boundary turns into the generic \<open>ResourceError\<close>.
  Evaluated on the table of three users with the absent key 99 and the present key 2.
\<close>

theorem get_by_key_or_fail_missing_raises_TypeError:
  "get_by_key users (PInt 99) = None
   \<and> get_by_key_or_fail users (PInt 99) =
       Inl (TypeError ''exceptions must derive from BaseException'')
   \<and> facade_get engine user_facade (PInt 99) = Inl (Arquea (ResourceError ''user'' ''<error>''))
   \<and> get_by_key_or_fail users (PInt 2) = Inr bob"
proof -
  have a: "get_by_key users (PInt 99) = None"
    by (simp add: get_by_key_def users_def ann_def bob_def eve_def)
  have b: "get_by_key users (PInt 2) = Some bob"
    by (simp add: get_by_key_def users_def ann_def bob_def)
  have c: "contains ''SqlAlchemyCrudFacade'' (mro user_facade)"
    unfolding user_facade_def by code_simp
  have d: "repository user_facade = users" by (simp add: user_facade_def)
  show ?thesis
    using a b c
    by (simp add: get_by_key_or_fail_def facade_get_def d db_catch_exception_def
          retrieve_resource_def engine_def users_def)
qed

section \<open>The default combinator\<close>

lemma get_filter_query_compiled:
  assumes cf: "get_criteria (py_str rt) (model repo) kwargs = Inr (cs, js)"
      and cm: "get_criteria (py_str rt) (model repo) (filters_or_empty mandatory) = Inr (ms, mjs)"
  shows "get_filter_query rt repo mandatory (Some kwargs) operator =
           Inr (filter_query_of (if operator_or operator OR = OR then or_clause else and_clause)
                  cs ms (mjs @ js))"
  using cf cm
  by (simp add: get_filter_query_def get_filter_criteria_def filter_query_of_def filters_or_empty_def)

lemma ann_or_admin_compiled:
  "get_criteria (py_str engine) (model users) ann_or_admin = Inr (ann_or_admin_criteria, [])"
  by code_simp

lemma nothing_mandatory:
  "get_criteria (py_str engine) (model users) (filters_or_empty None) = Inr ([], [])"
  by (simp add: filters_or_empty_def)

lemma ann_or_admin_matching:
  "matching engine (session users) (filter_query_of or_clause ann_or_admin_criteria [] []) = [ann]"
  by (simp add: matching_def users_def engine_def filter_query_of_def eval_clause_def holds_eq_def
        ann_or_admin_criteria_def ann_def bob_def eve_def)

lemma ann_or_admin_matching_and:
  "matching engine (session users) (filter_query_of and_clause ann_or_admin_criteria [] []) = []"
  by (simp add: matching_def users_def engine_def filter_query_of_def eval_clause_def holds_eq_def
        ann_or_admin_criteria_def ann_def bob_def eve_def)

lemma execute_filter_query_of:
  "execute rt rows (paginate_with (filter_query_of comb cs ms ls) (Some off) (Some lim) sorting) =
           apply_limit (if 1 \<le> lim then Some lim else None)
             (apply_offset (if 0 < off then Some off else None)
                (ordered rt sorting (matching rt rows (filter_query_of comb cs ms ls))))"
proof -
  have s: "offset_clause (filter_query_of comb cs ms ls) = None"
          "limit_clause (filter_query_of comb cs ms ls) = None"
          "order_by (filter_query_of comb cs ms ls) = []"
    by (simp_all add: filter_query_of_def)
  show ?thesis
    unfolding execute_def matching_paginated
    by (simp only: paginated_offset [OF s(1)] paginated_limit [OF s(2)] paginated_order [OF s(3)])
qed

text \<open>
  Claim C7, amended. With no combinator argument \<open>get_one_by\<close> and \<open>get_one_by_or_fail\<close>
  combine the compiled predicates of the user filter group with AND, whereas \<open>get_all\<close>,
  \<open>get_and_count\<close> and \<open>count_by\<close> combine them with OR, the default of the shared
  \<open>_get_filter_query\<close>. In every path the mandatory group is combined the same way and
  both groups must hold. An OR group holds when it is empty or one of its predicates holds,
  an AND group when all of them hold.
\<close>

theorem default_combinator_per_path:
  assumes cf: "get_criteria (py_str rt) (model repo) kwargs = Inr (cs, js)"
      and cm: "get_criteria (py_str rt) (model repo) (filters_or_empty mandatory) = Inr (ms, mjs)"
  shows "get_all rt repo offset limit sort_by None mandatory kwargs =
           (case apply_paginated_query repo (filter_query_of or_clause cs ms (mjs @ js))
                   (Some offset) (Some limit) sort_by of
              Inl e \<Rightarrow> Inl e
            | Inr qp \<Rightarrow> Inr (execute rt (session repo) qp))
       \<and> get_and_count rt repo offset limit sort_by None mandatory kwargs =
           (case apply_paginated_query repo (filter_query_of or_clause cs ms (mjs @ js))
                   (Some offset) (Some limit) sort_by of
              Inl e \<Rightarrow> Inl e
            | Inr qp \<Rightarrow>
                Inr (execute rt (session repo) qp,
                     count_subquery rt (session repo)
                       (filter_query_of or_clause cs ms (mjs @ js))))
       \<and> count_by rt repo None mandatory kwargs =
           Inr (count_subquery rt (session repo) (filter_query_of or_clause cs ms (mjs @ js)))
       \<and> get_one_by rt repo offset limit sort_by None mandatory kwargs =
           (case apply_paginated_query repo (filter_query_of and_clause cs ms (mjs @ js))
                   (Some offset) (Some limit) sort_by of
              Inl e \<Rightarrow> Inl e
            | Inr qp \<Rightarrow> Inr (scalar rt (session repo) qp))
       \<and> get_one_by_or_fail rt repo offset limit sort_by None mandatory kwargs =
           (case apply_paginated_query repo (filter_query_of and_clause cs ms (mjs @ js))
                   (Some offset) (Some limit) sort_by of
              Inl e \<Rightarrow> Inl e
            | Inr qp \<Rightarrow>
                (case scalars_one rt (session repo) qp of
                   Inr entity \<Rightarrow> Inr entity
                 | Inl MultipleResultsFound \<Rightarrow>
                     Inl (Arquea (ResourceUniqueError (resource repo)
                            (''Multiple entities found: '' @ py_format (py_str rt) (PDict kwargs))))
                 | Inl NoResultFound \<Rightarrow>
                     Inl (Arquea (ResourceMissingError (resource repo)
                            (''Resource not found: '' @ py_format (py_str rt) (PDict kwargs))))
                 | Inl e \<Rightarrow> Inl e))
       \<and> (\<forall>h r. eval_clause h r (or_clause cs) = (cs = [] \<or> (\<exists>c\<in>set cs. h r c)))
       \<and> (\<forall>h r. eval_clause h r (and_clause cs) = (\<forall>c\<in>set cs. h r c))"
proof -
  have o: "get_filter_query rt repo mandatory (Some kwargs) None =
             Inr (filter_query_of or_clause cs ms (mjs @ js))"
    using get_filter_query_compiled [OF cf cm, of None] by (simp add: operator_or_def)
  have a: "get_filter_query rt repo mandatory (Some kwargs) (Some (operator_or None AND)) =
             Inr (filter_query_of and_clause cs ms (mjs @ js))"
    using get_filter_query_compiled [OF cf cm, of "Some (operator_or None AND)"]
    by (simp add: operator_or_def)
  have 1: "get_all rt repo offset limit sort_by None mandatory kwargs =
           (case apply_paginated_query repo (filter_query_of or_clause cs ms (mjs @ js))
                   (Some offset) (Some limit) sort_by of
              Inl e \<Rightarrow> Inl e
            | Inr qp \<Rightarrow> Inr (execute rt (session repo) qp))"
    by (simp add: get_all_def get_query_def o)
  have 2: "get_and_count rt repo offset limit sort_by None mandatory kwargs =
           (case apply_paginated_query repo (filter_query_of or_clause cs ms (mjs @ js))
                   (Some offset) (Some limit) sort_by of
              Inl e \<Rightarrow> Inl e
            | Inr qp \<Rightarrow>
                Inr (execute rt (session repo) qp,
                     count_subquery rt (session repo)
                       (filter_query_of or_clause cs ms (mjs @ js))))"
    by (simp add: get_and_count_def o Let_def split: sum.splits)
  have 3: "count_by rt repo None mandatory kwargs =
           Inr (count_subquery rt (session repo) (filter_query_of or_clause cs ms (mjs @ js)))"
    by (simp add: count_by_def o)
  have 4: "get_one_by rt repo offset limit sort_by None mandatory kwargs =
           (case apply_paginated_query repo (filter_query_of and_clause cs ms (mjs @ js))
                   (Some offset) (Some limit) sort_by of
              Inl e \<Rightarrow> Inl e
            | Inr qp \<Rightarrow> Inr (scalar rt (session repo) qp))"
    by (simp add: get_one_by_def get_query_def a)
  have 5: "get_one_by_or_fail rt repo offset limit sort_by None mandatory kwargs =
           (case apply_paginated_query repo (filter_query_of and_clause cs ms (mjs @ js))
                   (Some offset) (Some limit) sort_by of
              Inl e \<Rightarrow> Inl e
            | Inr qp \<Rightarrow>
                (case scalars_one rt (session repo) qp of
                   Inr entity \<Rightarrow> Inr entity
                 | Inl MultipleResultsFound \<Rightarrow>
                     Inl (Arquea (ResourceUniqueError (resource repo)
                            (''Multiple entities found: '' @ py_format (py_str rt) (PDict kwargs))))
                 | Inl NoResultFound \<Rightarrow>
                     Inl (Arquea (ResourceMissingError (resource repo)
                            (''Resource not found: '' @ py_format (py_str rt) (PDict kwargs))))
                 | Inl e \<Rightarrow> Inl e))"
    by (simp add: get_one_by_or_fail_def get_query_def a)
  have 6: "\<forall>h r. eval_clause h r (or_clause cs) = (cs = [] \<or> (\<exists>c\<in>set cs. h r c))"
    by (simp add: eval_clause_def list_ex_iff)
  have 7: "\<forall>h r. eval_clause h r (and_clause cs) = (\<forall>c\<in>set cs. h r c)"
    by (simp add: eval_clause_def list_all_iff)
  from 1 2 3 4 5 6 7 show ?thesis by blast
qed

theorem default_combinator_per_path_witness:
  "get_all engine users 0 15 None None None ann_or_admin = Inr [ann]
   \<and> get_one_by engine users 0 15 None None None ann_or_admin = Inr None"
  using default_combinator_per_path [OF ann_or_admin_compiled nothing_mandatory, of 0 15 None]
  by (simp add: apply_paginated_query_compiled [OF no_sort_compiled] execute_filter_query_of
        scalar_def ann_or_admin_matching ann_or_admin_matching_and
        ordered_Nil apply_limit_def apply_offset_def)

text \<open>
  Claim C7 as stated fails for \<open>get_all\<close>: with the filters \<open>first_name = Ann\<close> and
  \<open>role = admin\<close> and no combinator the statement carries an OR group, and the row \<open>ann\<close>,
  who is no admin and so does not satisfy the AND of the two predicates, is returned.
\<close>

theorem get_all_default_or_counterexample:
  "get_filter_query engine users None (Some ann_or_admin) None =
     Inr (filter_query_of or_clause ann_or_admin_criteria [] [])
   \<and> get_all engine users 0 15 None None None ann_or_admin = Inr [ann]
   \<and> \<not> eval_clause holds_eq ann (and_clause ann_or_admin_criteria)"
proof -
  have q: "get_filter_query engine users None (Some ann_or_admin) None =
     Inr (filter_query_of or_clause ann_or_admin_criteria [] [])"
    using get_filter_query_compiled [OF ann_or_admin_compiled nothing_mandatory, of None]
    by (simp add: operator_or_def)
  have g: "get_all engine users 0 15 None None None ann_or_admin = Inr [ann]"
    by (simp add: get_all_def get_query_def q apply_paginated_query_compiled [OF no_sort_compiled]
          execute_filter_query_of ann_or_admin_matching
          ordered_Nil apply_limit_def apply_offset_def)
  have n: "\<not> eval_clause holds_eq ann (and_clause ann_or_admin_criteria)"
    by (simp add: eval_clause_def holds_eq_def ann_or_admin_criteria_def ann_def)
  from q g n show ?thesis by blast
qed

section \<open>Sorting\<close>











section \<open>Partial update\<close>

lemma update_by_key_session:
  "session (snd (update_by_key now repo key data)) =
     map (\<lambda>r. if r ''id'' = Some key then r ++ data(''updated_at'' \<mapsto> now) else r) (session repo)"
  by (simp add: update_by_key_def Let_def)

lemma facade_update_repository:
  "repository (snd (facade_update rt now fac key data)) =
     snd (update_by_key now (repository fac) key (mapping_from_dto_update_to_dict data))"
  by (simp add: facade_update_def Let_def split: prod.splits)

text \<open>
  Claim C8. After \<open>update(key, data)\<close> the table has the same number of rows; in every row
  with that key each field the update DTO did not set, other than \<open>updated_at\<close>, keeps its
  prior value, \<open>updated_at\<close> is the current time whatever the caller supplied, and each field
  that was set holds the supplied value; every other row is unchanged.
\<close>

theorem facade_update_frame:
  assumes u: "facade_update rt now fac key data = (out, fac1)"
  shows "length (session (repository fac1)) = length (session (repository fac))
       \<and> (\<forall>i < length (session (repository fac)).
            (session (repository fac) ! i) ''id'' = Some key \<longrightarrow>
              (\<forall>f. f \<notin> fields_set data \<and> f \<noteq> ''updated_at'' \<longrightarrow>
                     (session (repository fac1) ! i) f = (session (repository fac) ! i) f)
            \<and> (session (repository fac1) ! i) ''updated_at'' = Some now
            \<and> (\<forall>f v. f \<in> fields_set data \<and> f \<noteq> ''updated_at'' \<and> field_values data f = Some v \<longrightarrow>
                     (session (repository fac1) ! i) f = Some v))
       \<and> (\<forall>i < length (session (repository fac)).
            (session (repository fac) ! i) ''id'' \<noteq> Some key \<longrightarrow>
              session (repository fac1) ! i = session (repository fac) ! i)"
proof -
  from u have f1: "fac1 = snd (facade_update rt now fac key data)" by simp
  have s: "session (repository fac1) =
             map (\<lambda>r. if r ''id'' = Some key
                       then r ++ (mapping_from_dto_update_to_dict data)(''updated_at'' \<mapsto> now)
                       else r)
                 (session (repository fac))"
    unfolding f1 facade_update_repository update_by_key_session ..
  show ?thesis
    unfolding s
    by (auto simp: map_add_def mapping_from_dto_update_to_dict_def restrict_map_def)
qed

lemma users_rows: "session (repository user_facade) = [ann, bob, eve]"
  by (simp add: user_facade_def users_def)

theorem facade_update_frame_witness:
  "(session (repository (snd (facade_update engine (PInt 99) user_facade (PInt 2) rename_bob))) ! 1)
      ''role'' = Some (PStr ''employee'')
   \<and> (session (repository (snd (facade_update engine (PInt 99) user_facade (PInt 2) rename_bob))) ! 1)
      ''updated_at'' = Some (PInt 99)
   \<and> (session (repository (snd (facade_update engine (PInt 99) user_facade (PInt 2) rename_bob))) ! 1)
      ''first_name'' = Some (PStr ''Rob'')
   \<and> session (repository (snd (facade_update engine (PInt 99) user_facade (PInt 2) rename_bob))) ! 0
      = ann"
proof -
  note t = facade_update_frame [OF prod.collapse [symmetric],
             of engine "PInt 99" user_facade "PInt 2" rename_bob]
  have i1: "1 < length (session (repository user_facade))" by (simp add: users_rows)
  have i0: "0 < length (session (repository user_facade))" by (simp add: users_rows)
  have b: "session (repository user_facade) ! 1 = bob" by (simp add: users_rows)
  have a: "session (repository user_facade) ! 0 = ann" by (simp add: users_rows)
  have bid: "bob ''id'' = Some (PInt 2)" "bob ''role'' = Some (PStr ''employee'')"
    by (simp_all add: bob_def)
  have aid: "ann ''id'' \<noteq> Some (PInt 2)" by (simp add: ann_def)
  have fs: "''role'' \<notin> fields_set rename_bob" "''first_name'' \<in> fields_set rename_bob"
           "field_values rename_bob ''first_name'' = Some (PStr ''Rob'')"
    by (simp_all add: rename_bob_def)
  have ne: "''role'' \<noteq> ''updated_at''" "''first_name'' \<noteq> ''updated_at''" by simp_all
  from t i1 b bid(1) have
    r: "\<forall>f. f \<notin> fields_set rename_bob \<and> f \<noteq> ''updated_at'' \<longrightarrow>
          (session (repository (snd (facade_update engine (PInt 99) user_facade (PInt 2) rename_bob))) ! 1) f = bob f"
    and up: "(session (repository (snd (facade_update engine (PInt 99) user_facade (PInt 2) rename_bob))) ! 1)
               ''updated_at'' = Some (PInt 99)"
    and w: "\<forall>f v. f \<in> fields_set rename_bob \<and> f \<noteq> ''updated_at'' \<and> field_values rename_bob f = Some v \<longrightarrow>
          (session (repository (snd (facade_update engine (PInt 99) user_facade (PInt 2) rename_bob))) ! 1) f = Some v"
    by metis+
  from t i0 a aid have
    o: "session (repository (snd (facade_update engine (PInt 99) user_facade (PInt 2) rename_bob))) ! 0 = ann"
    by metis
  from r fs(1) ne(1) bid(2) have 1: "(session (repository (snd (facade_update engine (PInt 99) user_facade (PInt 2) rename_bob))) ! 1)
      ''role'' = Some (PStr ''employee'')" by metis
  from w fs(2,3) ne(2) have 2: "(session (repository (snd (facade_update engine (PInt 99) user_facade (PInt 2) rename_bob))) ! 1)
      ''first_name'' = Some (PStr ''Rob'')" by metis
  from 1 up 2 o show ?thesis by blast
qed


section \<open>Tolerant list mapping\<close>

lemma dtos_or_none_tolerant:
  "(\<forall>e\<in>set es. (\<exists>d. dto fac e = Inr d) \<or> fails_validation fac e) \<Longrightarrow>
     dtos_or_none fac es = (Inr (valid_dtos fac es), validation_warnings fac es)"
proof (induction es)
  case Nil
  then show ?case by (simp add: valid_dtos_def validation_warnings_def)
next
  case (Cons e es)
  then have ih: "dtos_or_none fac es = (Inr (valid_dtos fac es), validation_warnings fac es)" by simp
  from Cons.prems have "(\<exists>d. dto fac e = Inr d) \<or> fails_validation fac e" by simp
  then show ?case
  proof
    assume "\<exists>d. dto fac e = Inr d"
    then obtain d where "dto fac e = Inr d" ..
    with ih show ?thesis
      by (simp add: mapping_from_entity_to_dto_or_none_def mapping_from_entity_to_dto_def
            valid_dtos_def validation_warnings_def)
  next
    assume "fails_validation fac e"
    then obtain msg where "dto fac e = Inl (ValidationError msg)"
      unfolding fails_validation_def by (auto split: sum.splits py_exception.splits)
    with ih show ?thesis
      by (simp add: mapping_from_entity_to_dto_or_none_def mapping_from_entity_to_dto_def
            valid_dtos_def validation_warnings_def)
  qed
qed

lemma length_valid_dtos:
  "length (valid_dtos fac es) + length (filter (\<lambda>e. isl (dto fac e)) es) = length es"
  by (induction es) (auto simp: valid_dtos_def split: sum.splits)

lemma length_validation_warnings:
  "length (validation_warnings fac es) = length (filter (\<lambda>e. isl (dto fac e)) es)"
  by (induction es) (auto simp: validation_warnings_def split: sum.splits)

lemma valid_dtos_from_rows:
  "d \<in> set (valid_dtos fac es) \<Longrightarrow> \<exists>e\<in>set es. dto fac e = Inr d"
  by (induction es) (auto simp: valid_dtos_def split: sum.splits)

lemma length_apply_limit:
  "lim \<le> 0 \<or> int (length rs) \<le> lim \<Longrightarrow>
     length (apply_limit (if 1 \<le> lim then Some lim else None) rs) = length rs"
  by (auto simp: apply_limit_def)

lemma sort_by_or_empty_Some: "sort_by_or_empty (Some ts) = ts"
  by (simp add: sort_by_or_empty_def)

lemma get_and_count_page:
  assumes fq: "get_filter_query rt repo mandatory (Some kwargs) operator = Inr q"
      and sc: "get_sort_criteria (model repo) ts = Inr sorting"
  shows "get_and_count rt repo offset limit (Some ts) operator mandatory kwargs =
           Inr (execute rt (session repo) (paginate_with q (Some offset) (Some limit) sorting),
                int (length (matching rt (session repo) q)))"
proof -
  from sc have "get_sort_criteria (model repo) (sort_by_or_empty (Some ts)) = Inr sorting"
    by (simp add: sort_by_or_empty_Some)
  then show ?thesis
    by (simp add: get_and_count_def fq apply_paginated_query_compiled count_subquery_def
          execute_unpaginated [OF fq])
qed

lemma everyone_compiled:
  "get_filter_query engine (repository user_facade) None (Some []) None =
     Inr (filter_query_of or_clause [] [] [])"
  by code_simp

lemma everyone_matching:
  "matching engine (session (repository user_facade)) (filter_query_of or_clause [] [] []) =
     [ann, bob, eve]"
  by (simp add: matching_def users_rows filter_query_of_def eval_clause_def)

lemma default_sort_compiled:
  "get_sort_criteria (model (repository user_facade)) (sort_by_or_default None) =
     Inr newest"
  by code_simp

lemma newest_first:
  "ordered engine newest [ann, bob, eve] = [ann, bob, eve]"
proof -
  have k: "int_key ''created_at'' ann = 30" "int_key ''created_at'' bob = 20"
          "int_key ''created_at'' eve = 10"
    by (simp_all add: int_key_def ann_def bob_def eve_def)
  show ?thesis
    by (simp add: ordered_def engine_def order_first_def newest_def k)
qed

lemma users_validated:
  "dto user_facade ann = Inr (''Ann'', ''employee'')"
  "dto user_facade bob = Inr (''Bob'', ''employee'')"
  "dto user_facade eve = Inl (ValidationError ''role: Input should be a valid string'')"
  by (simp_all add: user_facade_def validate_user_def ann_def bob_def eve_def)

lemma default_page:
  "fetched_page engine user_facade None newest (filter_query_of or_clause [] [] []) = [ann, bob, eve]"
  by (simp add: fetched_page_def execute_paginated [OF everyone_compiled] everyone_matching
        pagination_or_default_def default_pagination_def
        newest_first apply_limit_def apply_offset_def)

lemma first_page:
  "fetched_page engine user_facade (Some \<lparr> pf_offset = 0, pf_limit = 1 \<rparr>) newest
     (filter_query_of or_clause [] [] []) = [ann]"
  by (simp add: fetched_page_def execute_paginated [OF everyone_compiled] everyone_matching
        pagination_or_default_def newest_first apply_limit_def apply_offset_def)

text \<open>
  Claim C4, amended. \<open>get_list\<close> maps the rows of the fetched page. When the filters and
  the sort tokens compile, validation is the only way a row of the page fails to map, and
  exactly one row of the page fails, it returns one DTO less than the page has rows, each the
  DTO of a row of the page, with one logged warning, and the reported total is the number of
  all matching rows. When the page holds every matching row (no offset in force and no limit
  below their number) that is \<open>N - 1\<close> DTOs with total \<open>N\<close>.
\<close>

theorem facade_get_list_tolerant:
  assumes fq: "get_filter_query rt (repository fac) mandatory (Some kwargs) operator = Inr q"
      and sc: "get_sort_criteria (model (repository fac)) (sort_by_or_default sort_by) = Inr sorting"
      and val: "\<forall>e\<in>set (fetched_page rt fac pagination sorting q).
                  (\<exists>d. dto fac e = Inr d) \<or> fails_validation fac e"
      and one: "length (filter (\<lambda>e. isl (dto fac e)) (fetched_page rt fac pagination sorting q)) = 1"
  shows "facade_get_list rt fac pagination sort_by operator mandatory kwargs =
           (Inr (valid_dtos fac (fetched_page rt fac pagination sorting q),
                 int (length (matching rt (session (repository fac)) q))),
            validation_warnings fac (fetched_page rt fac pagination sorting q))
       \<and> length (valid_dtos fac (fetched_page rt fac pagination sorting q)) + 1 =
           length (fetched_page rt fac pagination sorting q)
       \<and> length (validation_warnings fac (fetched_page rt fac pagination sorting q)) = 1
       \<and> (\<forall>d\<in>set (valid_dtos fac (fetched_page rt fac pagination sorting q)).
             \<exists>e\<in>set (fetched_page rt fac pagination sorting q). dto fac e = Inr d)
       \<and> (pf_offset (pagination_or_default pagination) \<le> 0
            \<and> (pf_limit (pagination_or_default pagination) \<le> 0
                 \<or> int (length (matching rt (session (repository fac)) q))
                      \<le> pf_limit (pagination_or_default pagination))
            \<and> (\<forall>cls rs. mset (sql_order rt cls rs) = mset rs) \<longrightarrow>
          length (valid_dtos fac (fetched_page rt fac pagination sorting q)) + 1 =
            length (matching rt (session (repository fac)) q))"
proof -
  define page where "page = fetched_page rt fac pagination sorting q"
  have gc: "get_and_count rt (repository fac) (pf_offset (pagination_or_default pagination))
              (pf_limit (pagination_or_default pagination)) (Some (sort_by_or_default sort_by))
              operator mandatory kwargs =
            Inr (page, int (length (matching rt (session (repository fac)) q)))"
    unfolding page_def fetched_page_def
    by (rule get_and_count_page [OF fq sc])
  have d: "dtos_or_none fac page = (Inr (valid_dtos fac page), validation_warnings fac page)"
    using val unfolding page_def by (rule dtos_or_none_tolerant)
  have a: "facade_get_list rt fac pagination sort_by operator mandatory kwargs =
           (Inr (valid_dtos fac page, int (length (matching rt (session (repository fac)) q))),
            validation_warnings fac page)"
    by (simp add: facade_get_list_def Let_def gc d db_catch_exception_def)
  have b: "length (valid_dtos fac page) + 1 = length page"
    using length_valid_dtos [of fac page] one unfolding page_def by simp
  have c: "length (validation_warnings fac page) = 1"
    using length_validation_warnings [of fac page] one unfolding page_def by simp
  have e: "\<forall>d\<in>set (valid_dtos fac page). \<exists>e\<in>set page. dto fac e = Inr d"
  proof
    fix d assume "d \<in> set (valid_dtos fac page)"
    then show "\<exists>e\<in>set page. dto fac e = Inr d" by (rule valid_dtos_from_rows)
  qed
  have f: "pf_offset (pagination_or_default pagination) \<le> 0
            \<and> (pf_limit (pagination_or_default pagination) \<le> 0
                 \<or> int (length (matching rt (session (repository fac)) q))
                      \<le> pf_limit (pagination_or_default pagination))
            \<and> (\<forall>cls rs. mset (sql_order rt cls rs) = mset rs) \<longrightarrow>
          length (valid_dtos fac page) + 1 = length (matching rt (session (repository fac)) q)"
  proof
    assume h: "pf_offset (pagination_or_default pagination) \<le> 0
            \<and> (pf_limit (pagination_or_default pagination) \<le> 0
                 \<or> int (length (matching rt (session (repository fac)) q))
                      \<le> pf_limit (pagination_or_default pagination))
            \<and> (\<forall>cls rs. mset (sql_order rt cls rs) = mset rs)"
    define os where "os = ordered rt sorting (matching rt (session (repository fac)) q)"
    have lo: "length os = length (matching rt (session (repository fac)) q)"
      unfolding os_def using h by (simp add: length_ordered)
    have pg: "page = apply_limit (if 1 \<le> pf_limit (pagination_or_default pagination)
                                   then Some (pf_limit (pagination_or_default pagination)) else None) os"
      unfolding page_def fetched_page_def os_def using h
      by (simp add: execute_paginated [OF fq] apply_offset_def)
    have "length page = length os"
      unfolding pg using h lo by (intro length_apply_limit) simp
    with b lo show "length (valid_dtos fac page) + 1 = length (matching rt (session (repository fac)) q)"
      by simp
  qed
  from a b c e f show ?thesis unfolding page_def by blast
qed

theorem facade_get_list_tolerant_witness:
  "facade_get_list engine user_facade None None None None [] =
     (Inr ([(''Ann'', ''employee''), (''Bob'', ''employee'')], 3),
      [(eve, ValidationError ''role: Input should be a valid string'')])"
proof -
  have val: "\<forall>e\<in>set (fetched_page engine user_facade None newest (filter_query_of or_clause [] [] [])).
                  (\<exists>d. dto user_facade e = Inr d) \<or> fails_validation user_facade e"
    by (simp add: default_page users_validated fails_validation_def)
  have one: "length (filter (\<lambda>e. isl (dto user_facade e))
               (fetched_page engine user_facade None newest (filter_query_of or_clause [] [] []))) = 1"
    by (simp add: default_page users_validated)
  show ?thesis
    using facade_get_list_tolerant [OF everyone_compiled default_sort_compiled val one]
    by (simp add: default_page everyone_matching valid_dtos_def validation_warnings_def
          users_validated)
qed

text \<open>
  Claim C4 as stated fails under pagination: three rows match, one of them fails validation,
  and with \<open>limit = 1\<close> the list holds one DTO, not two, while the total stays three.
\<close>

theorem facade_get_list_page_counterexample:
  "matching engine (session (repository user_facade)) (filter_query_of or_clause [] [] []) =
     [ann, bob, eve]
   \<and> length (filter (\<lambda>e. isl (dto user_facade e)) [ann, bob, eve]) = 1
   \<and> facade_get_list engine user_facade (Some \<lparr> pf_offset = 0, pf_limit = 1 \<rparr>) None None None [] =
       (Inr ([(''Ann'', ''employee'')], 3), [])"
proof -
  have gc: "get_and_count engine (repository user_facade) 0 1 (Some (sort_by_or_default None))
              None None [] = Inr ([ann], 3)"
    using first_page
    by (simp add: get_and_count_page [OF everyone_compiled default_sort_compiled] fetched_page_def
          everyone_matching pagination_or_default_def)
  have r: "facade_get_list engine user_facade (Some \<lparr> pf_offset = 0, pf_limit = 1 \<rparr>) None None None [] =
       (Inr ([(''Ann'', ''employee'')], 3), [])"
    by (simp add: facade_get_list_def Let_def pagination_or_default_def
          gc db_catch_exception_def mapping_from_entity_to_dto_or_none_def
          mapping_from_entity_to_dto_def users_validated)
  show ?thesis
    by (simp add: everyone_matching users_validated r)
qed


section \<open>The error boundary of the facade\<close>

lemma db_catch_exception_typed:
  "db_catch_exception rt res args outcome = Inl x \<Longrightarrow> (\<exists>e. x = Arquea e) \<or> (\<exists>n. x = NonException n)"
  by (auto simp: db_catch_exception_def split: sum.splits py_exception.splits)

lemma db_catch_exception_cases:
  "(\<forall>e. outcome = Inl (Arquea e) \<longrightarrow> db_catch_exception rt res args outcome = Inl (Arquea e))
   \<and> (\<forall>x. outcome = Inl x \<and> (\<forall>e. x \<noteq> Arquea e) \<and> (\<forall>n. x \<noteq> NonException n) \<longrightarrow>
         db_catch_exception rt res args outcome =
           Inl (Arquea (ResourceError (retrieve_resource res args) (exc_str rt x))))
   \<and> (\<forall>v. outcome = Inr v \<longrightarrow> db_catch_exception rt res args outcome = Inr v)
   \<and> (\<forall>fac rest. args = fac # rest \<and> contains ''SqlAlchemyCrudFacade'' (mro fac) \<longrightarrow>
         retrieve_resource res args = resource (repository fac))
   \<and> (\<forall>x. db_catch_exception rt res args outcome = Inl x \<longrightarrow>
         (\<exists>e. x = Arquea e) \<or> (\<exists>n. x = NonException n))"
proof (intro conjI allI impI)
  fix e assume "outcome = Inl (Arquea e)"
  then show "db_catch_exception rt res args outcome = Inl (Arquea e)"
    by (simp add: db_catch_exception_def)
next
  fix x assume "outcome = Inl x \<and> (\<forall>e. x \<noteq> Arquea e) \<and> (\<forall>n. x \<noteq> NonException n)"
  then show "db_catch_exception rt res args outcome =
           Inl (Arquea (ResourceError (retrieve_resource res args) (exc_str rt x)))"
    by (cases x) (simp_all add: db_catch_exception_def)
next
  fix v assume "outcome = Inr v"
  then show "db_catch_exception rt res args outcome = Inr v"
    by (simp add: db_catch_exception_def)
next
  fix fac rest assume "args = fac # rest \<and> contains ''SqlAlchemyCrudFacade'' (mro fac)"
  then show "retrieve_resource res args = resource (repository fac)"
    by (simp add: retrieve_resource_def)
next
  fix x assume "db_catch_exception rt res args outcome = Inl x"
  then show "(\<exists>e. x = Arquea e) \<or> (\<exists>n. x = NonException n)"
    by (rule db_catch_exception_typed)
qed

lemma facade_operations_typed:
  "(facade_get rt fac key = Inl x \<longrightarrow> (\<exists>e. x = Arquea e) \<or> (\<exists>n. x = NonException n))
   \<and> (facade_get_one_by rt fac offset limit sort_by operator mandatory kwargs = Inl x \<longrightarrow>
        (\<exists>e. x = Arquea e) \<or> (\<exists>n. x = NonException n))
   \<and> (facade_get_latest_by rt fac offset operator mandatory kwargs = Inl x \<longrightarrow>
        (\<exists>e. x = Arquea e) \<or> (\<exists>n. x = NonException n))
   \<and> (fst (facade_get_list rt fac pagination sort_by operator mandatory kwargs) = Inl x \<longrightarrow>
        (\<exists>e. x = Arquea e) \<or> (\<exists>n. x = NonException n))
   \<and> (fst (facade_update rt now fac key data) = Inl x \<longrightarrow>
        (\<exists>e. x = Arquea e) \<or> (\<exists>n. x = NonException n))"
proof (intro conjI impI)
  assume "facade_get rt fac key = Inl x"
  then show "(\<exists>e. x = Arquea e) \<or> (\<exists>n. x = NonException n)"
    unfolding facade_get_def by (rule db_catch_exception_typed)
next
  assume "facade_get_one_by rt fac offset limit sort_by operator mandatory kwargs = Inl x"
  then show "(\<exists>e. x = Arquea e) \<or> (\<exists>n. x = NonException n)"
    unfolding facade_get_one_by_def by (rule db_catch_exception_typed)
next
  assume "facade_get_latest_by rt fac offset operator mandatory kwargs = Inl x"
  then show "(\<exists>e. x = Arquea e) \<or> (\<exists>n. x = NonException n)"
    unfolding facade_get_latest_by_def by (rule db_catch_exception_typed)
next
  assume "fst (facade_get_list rt fac pagination sort_by operator mandatory kwargs) = Inl x"
  then show "(\<exists>e. x = Arquea e) \<or> (\<exists>n. x = NonException n)"
    unfolding facade_get_list_def Let_def
    by (auto split: sum.splits prod.splits dest: db_catch_exception_typed)
next
  assume "fst (facade_update rt now fac key data) = Inl x"
  then show "(\<exists>e. x = Arquea e) \<or> (\<exists>n. x = NonException n)"
    unfolding facade_update_def Let_def
    by (auto split: prod.splits dest: db_catch_exception_typed)
qed

lemma employees_mandatory_compiled:
  "get_filter_query engine (repository user_facade) (Some employees) (Some []) None =
     Inr (filter_query_of or_clause []
            [BinaryExpression ''user'' ''role'' ''__eq__'' (PStr ''employee'')] [])"
  by code_simp

lemma employees_mandatory_matching:
  "matching engine (session (repository user_facade))
     (filter_query_of or_clause []
        [BinaryExpression ''user'' ''role'' ''__eq__'' (PStr ''employee'')] []) = [ann, bob]"
  by (simp add: matching_def users_rows filter_query_of_def eval_clause_def engine_def
        holds_eq_def ann_def bob_def eve_def)

lemma newest_first_employees: "ordered engine newest [ann, bob] = [ann, bob]"
proof -
  have k: "int_key ''created_at'' ann = 30" "int_key ''created_at'' bob = 20"
    by (simp_all add: int_key_def ann_def bob_def)
  show ?thesis
    by (simp add: ordered_def engine_def order_first_def newest_def k)
qed

lemma employees_listed:
  "facade_get_list engine user_facade None None None (Some employees) [] =
     (Inr ([(''Ann'', ''employee''), (''Bob'', ''employee'')], 2), [])"
proof -
  have gc: "get_and_count engine (repository user_facade) 0 1000000 (Some (sort_by_or_default None))
              None (Some employees) [] = Inr ([ann, bob], 2)"
    by (simp add: get_and_count_page [OF employees_mandatory_compiled default_sort_compiled]
          execute_paginated [OF employees_mandatory_compiled] employees_mandatory_matching
          newest_first_employees apply_limit_def apply_offset_def)
  show ?thesis
    by (simp add: facade_get_list_def Let_def pagination_or_default_def default_pagination_def
          gc db_catch_exception_def mapping_from_entity_to_dto_or_none_def
          mapping_from_entity_to_dto_def users_validated)
qed

lemma delete_by_unknown_first_key:
  assumes "\<not> contains ''___'' k" and "\<not> contains ''__'' k"
      and "getattr_model (model repo) k = None"
  shows "delete_by rt repo ((k, v) # kwargs) = (Inl (AttributeError k), repo)"
  using assms
  by (simp add: delete_by_def get_filter_criteria_def get_column_criteria_def get_operator_def)

text \<open>
  Claim C5. The boundary does what the claim says on every decorated operation, as shown
  above. The code departs from the claim on \<open>delete_list\<close>, the one public operation
  \<open>SqlAlchemyCrudFacade\<close> inherits from \<open>CrudFacade\<close> without the boundary. Whenever the listing step of \<open>delete_list\<close> succeeds for a call with a mandatory
  group, on a class with no attribute named \<open>mandatory\<close>, the deleting step looks that name
  up as a filter key and the caller receives the bare \<open>AttributeError\<close>: no typed error, and
  not the \<open>ResourceError\<close> the boundary makes of the same failure.
\<close>

theorem facade_delete_list_raises_unwrapped:
  assumes gl: "fst (facade_get_list rt fac None None operator (Some m) kwargs) = Inr (dtos, n)"
      and na: "getattr_model (model (repository fac)) ''mandatory'' = None"
  shows "fst (facade_delete_list rt fac operator (Some m) kwargs) =
           Inl (AttributeError ''mandatory'')
       \<and> (\<forall>e. fst (facade_delete_list rt fac operator (Some m) kwargs) \<noteq> Inl (Arquea e))
       \<and> db_catch_exception rt facade_resource [fac]
            (fst (facade_delete_list rt fac operator (Some m) kwargs)) =
           Inl (Arquea (ResourceError (retrieve_resource facade_resource [fac])
                          (exc_str rt (AttributeError ''mandatory''))))"
proof -
  have j: "\<not> contains ''___'' ''mandatory''" by code_simp
  have c: "\<not> contains ''__'' ''mandatory''" by code_simp
  have d: "delete_by rt (repository fac) (delete_list_kwargs (Some m) kwargs) =
             (Inl (AttributeError ''mandatory''), repository fac)"
    unfolding delete_list_kwargs_def by (simp add: delete_by_unknown_first_key [OF j c na])
  obtain r w where g: "facade_get_list rt fac None None operator (Some m) kwargs = (r, w)"
    by (cases "facade_get_list rt fac None None operator (Some m) kwargs")
  with gl have r: "r = Inr (dtos, n)" by simp
  have a: "fst (facade_delete_list rt fac operator (Some m) kwargs) =
             Inl (AttributeError ''mandatory'')"
    by (simp add: facade_delete_list_def g r d)
  then show ?thesis
    by (simp add: db_catch_exception_def)
qed

theorem facade_delete_list_raises_unwrapped_witness:
  "fst (facade_get_list engine user_facade None None None (Some employees) []) =
     Inr ([(''Ann'', ''employee''), (''Bob'', ''employee'')], 2)
   \<and> getattr_model (model (repository user_facade)) ''mandatory'' = None
   \<and> fst (facade_delete_list engine user_facade None (Some employees) []) =
       Inl (AttributeError ''mandatory'')
   \<and> db_catch_exception engine facade_resource [user_facade]
        (fst (facade_delete_list engine user_facade None (Some employees) [])) =
       Inl (Arquea (ResourceError ''user'' ''<error>''))"
proof -
  have gl: "fst (facade_get_list engine user_facade None None None (Some employees) []) =
              Inr ([(''Ann'', ''employee''), (''Bob'', ''employee'')], 2)"
    by (simp add: employees_listed)
  have na: "getattr_model (model (repository user_facade)) ''mandatory'' = None"
    by code_simp
  have c: "contains ''SqlAlchemyCrudFacade'' (mro user_facade)"
    unfolding user_facade_def by code_simp
  have r: "retrieve_resource facade_resource [user_facade] = ''user''"
    using c by (simp add: retrieve_resource_def user_facade_def users_def)
  have e: "exc_str engine z = ''<error>''" for z by (simp add: engine_def)
  from facade_delete_list_raises_unwrapped [OF gl na] gl na r e show ?thesis
    by metis
qed

end
